theory Spec2Isabelle
  imports Main
begin

section \<open>JavaScript values and the conversions of the hex library\<close>

text \<open>
  The values that reach a chain-id position of the adapter at run time. A JavaScript
  number is modelled by its integer value (\<open>Num\<close>) or by \<open>NaN\<close>; every number that is
  not an integer is rejected by the same assertions as \<open>NaN\<close> wherever this program uses
  one, so it is represented by \<open>NaN\<close>. \<open>Promise\<close> is any promise object.
\<close>

datatype jsval = Undefined | Num int | NaN | Str string | Promise

fun truthy :: "jsval \<Rightarrow> bool" where
  "truthy Undefined = False"
| "truthy (Num n) = (n \<noteq> 0)"
| "truthy NaN = False"
| "truthy (Str s) = (s \<noteq> [])"
| "truthy Promise = True"

fun is_number :: "jsval \<Rightarrow> bool" where
  "is_number (Num n) = True"
| "is_number NaN = True"
| "is_number v = False"

fun is_string :: "jsval \<Rightarrow> bool" where
  "is_string (Str s) = True"
| "is_string v = False"

definition MAX_SAFE_INTEGER :: int where
  "MAX_SAFE_INTEGER = 9007199254740991"

definition digit_char :: "nat \<Rightarrow> char" where
  "digit_char d = ''0123456789abcdef'' ! d"

text \<open>\<open>Number.prototype.toString(16)\<close> and the decimal rendering of a template literal, on
  natural numbers.\<close>

fun to_radix :: "nat \<Rightarrow> nat \<Rightarrow> string" where
  "to_radix b n =
     (if b < 2 \<or> n < b then [digit_char n] else to_radix b (n div b) @ [digit_char (n mod b)])"

definition toString16 :: "nat \<Rightarrow> string" where
  "toString16 n = to_radix 16 n"

definition toString10 :: "int \<Rightarrow> string" where
  "toString10 n = (if n < 0 then CHR ''-'' # to_radix 10 (nat (- n)) else to_radix 10 (nat n))"

definition digit_value :: "char \<Rightarrow> nat option" where
  "digit_value c =
     (if c \<in> set ''0123456789'' then Some (of_char c - 48)
      else if c \<in> set ''abcdef'' then Some (of_char c - 87)
      else if c \<in> set ''ABCDEF'' then Some (of_char c - 55)
      else None)"

definition is_hex_digit :: "char \<Rightarrow> bool" where
  "is_hex_digit c = (digit_value c \<noteq> None)"

definition is_dec_digit :: "char \<Rightarrow> bool" where
  "is_dec_digit c = (c \<in> set ''0123456789'')"

definition parse_digits :: "nat \<Rightarrow> string \<Rightarrow> nat" where
  "parse_digits b s = foldl (\<lambda>a c. b * a + (case digit_value c of Some d \<Rightarrow> d | None \<Rightarrow> 0)) 0 s"

definition has_0x :: "string \<Rightarrow> bool" where
  "has_0x s = (take 2 s = ''0x'' \<or> take 2 s = ''0X'')"

text \<open>\<open>isHexString\<close> of \<open>@metamask/utils\<close>: a string matching
  \<^verbatim>\<open>/^(?:0x)?[0-9a-f]+$/iu\<close>.\<close>

definition hex_chars :: "string \<Rightarrow> bool" where
  "hex_chars s = (s \<noteq> [] \<and> list_all is_hex_digit s)"

fun isHex :: "jsval \<Rightarrow> bool" where
  "isHex (Str s) = (hex_chars s \<or> (has_0x s \<and> hex_chars (drop 2 s)))"
| "isHex v = False"

datatype error =
    NoChainSelected
  | UnsupportedMethod string
  | NoChainConfiguration
  | AssertionError
  | TypeError
  | Rejected string

text \<open>\<open>numberToHex\<close> of \<open>@metamask/utils\<close>: asserts a non-negative safe integer and
  returns \<open>0x\<close> followed by \<open>value.toString(16)\<close>.\<close>

fun numberToHex :: "jsval \<Rightarrow> error + string" where
  "numberToHex (Num n) =
     (if 0 \<le> n \<and> n \<le> MAX_SAFE_INTEGER then Inr (''0x'' @ toString16 (nat n))
      else Inl AssertionError)"
| "numberToHex v = Inl AssertionError"

text \<open>\<open>hexToNumber\<close> of \<open>@metamask/utils\<close>: asserts a hex string, reads it with
  \<open>parseInt(value, 16)\<close> and asserts that the result is a safe integer.\<close>

fun hexToNumber :: "jsval \<Rightarrow> error + int" where
  "hexToNumber (Str s) =
     (if isHex (Str s)
      then (let n = int (parse_digits 16 (if has_0x s then drop 2 s else s))
            in if n \<le> MAX_SAFE_INTEGER then Inr n else Inl AssertionError)
      else Inl AssertionError)"
| "hexToNumber v = Inl AssertionError"

text \<open>
  The global \<open>Number\<close> conversion. On strings the model is exact for the empty string, for
  hexadecimal literals (\<open>0x\<close> or \<open>0X\<close> and hex digits) and for unsigned decimal digit
  strings, the notations a chain id arrives in; every other string gives \<open>NaN\<close>.
\<close>

definition Number_str :: "string \<Rightarrow> jsval" where
  "Number_str s =
     (if s = [] then Num 0
      else if has_0x s \<and> hex_chars (drop 2 s) then Num (int (parse_digits 16 (drop 2 s)))
      else if list_all is_dec_digit s then Num (int (parse_digits 10 s))
      else NaN)"

fun Number :: "jsval \<Rightarrow> jsval" where
  "Number (Num n) = Num n"
| "Number (Str s) = Number_str s"
| "Number v = NaN"


section \<open>Data model\<close>

text \<open>\<open>AddEthereumChainParameter\<close> of \<open>types.ts\<close>; every field is optional.\<close>

record native_currency =
  nc_name :: "string option"
  nc_symbol :: "string option"
  nc_decimals :: "int option"

record chain_config =
  cc_chainId :: "string option"
  cc_chainName :: "string option"
  cc_nativeCurrency :: "native_currency option"
  cc_rpcUrls :: "string list option"
  cc_blockExplorerUrls :: "string list option"
  cc_iconUrls :: "string list option"

text \<open>A request payload whose shape the adapter does not look at.\<close>

datatype json = JNull | JNum int | JStr string | JArr "json list" | JObj "(string \<times> json) list"

text \<open>
  The \<open>params\<close> of a \<open>ProviderRequest\<close>, by the shapes of \<open>types.ts\<close>: a connect request
  carries \<open>[chainId?, account?]\<close>, a switch request \<open>[{chainId}]\<close>, an add-chain request
  \<open>[configuration]\<close>, a generic one anything. \<open>NoParams\<close> is a request without the
  property.
\<close>

datatype params =
    NoParams
  | ConnectParams "int option" "string option"
  | SwitchChainParams string
  | AddChainParams chain_config
  | GenericParams json

record provider_request =
  rq_method :: string
  rq_params :: params

text \<open>The events of \<open>EIP1193ProviderEvents\<close> with their payloads.\<close>

datatype event =
    Connect string
  | Disconnect
  | AccountsChanged "string list"
  | ChainChanged string

text \<open>The two listeners this class puts on the window's \<open>message\<close> channel.\<close>

datatype listener = MetamaskProviderHandler | RecoverSession

text \<open>\<open>this.#sessionChangedHandler\<close> itself, and the new function that \<open>.bind(this)\<close>
  makes of it.\<close>

datatype fn_ref = SessionChangedHandler | SessionChangedHandlerBound

text \<open>What \<open>sendEip1193Message\<close> is given as \<open>params\<close>.\<close>

datatype message_params =
    SwitchTo string
  | AddChain chain_config
  | Empty

text \<open>
  Every call the adapter makes on one of its collaborators, in the order it makes them: the
  provider wrapper's setters and \<open>emit\<close>, the caller's optional handlers, the storage
  adapter, the multichain core and its transport, and the window.
\<close>

datatype effect =
    SetAccounts "string list"
  | SetSelectedChainId jsval
  | StorageSetAccounts "string list"
  | StorageSetSelectedChainId string
  | Emit event
  | Callback event
  | CoreConnect "string list" "string list"
  | CoreDisconnect
  | CoreOn fn_ref
  | CoreOff fn_ref
  | OnNotification
  | SendEip1193Message string message_params
  | InvokeMethod string string params
  | AddEventListener listener
  | RemoveEventListener listener

text \<open>Which of the caller's \<open>EventHandlers\<close> are supplied.\<close>

record handlers =
  h_connect :: bool
  h_disconnect :: bool
  h_accountsChanged :: bool
  h_chainChanged :: bool

text \<open>The session scopes object, as the list of chain ids that the permission helper
  \<open>getPermittedEthChainIds\<close> reads out of it.\<close>

datatype scopes = Scopes (permitted: "string list")

text \<open>
  The state of a \<open>MetamaskConnectEVM\<close> with its \<open>EIP1193Provider\<close>: the provider's two
  private fields, the manager's private fields, the listeners on the window in the order of
  their registration, the number of callbacks given to \<open>transport.onNotification\<close>, and
  the calls made so far.
\<close>

record manager =
  accounts_f :: "string list"
  selectedChainId_f :: jsval
  sessionScopes :: scopes
  eventHandlers :: "handlers option"
  latestChainConfiguration :: "chain_config option"
  window_listeners :: "listener list"
  notification_callbacks :: nat
  trace :: "effect list"

datatype 'a outcome = Returns 'a | Throws error

definition log :: "effect \<Rightarrow> manager \<Rightarrow> manager" where
  "log e m = m\<lparr>trace := trace m @ [e]\<rparr>"

section \<open>The provider wrapper\<close>

text \<open>
  The repository holds two sources of the class \<open>EIP1193Provider\<close>. \<open>InMemory\<close> is
  \<open>src/unnamed/part_002\<close>, whose accessors read and write the private fields.
  \<open>StorageBacked\<close> is \<open>packages/connect-evm/src/provider.ts\<close>, whose setters also write
  to the core's storage adapter and whose getters return promises.
\<close>

datatype provider_src = InMemory | StorageBacked

datatype accounts_val = AccountList "string list" | AccountsPromise

definition set_accounts :: "provider_src \<Rightarrow> string list \<Rightarrow> manager \<Rightarrow> manager" where
  "set_accounts v a m =
     (let m1 = log (SetAccounts a) m;
          m2 = (if v = StorageBacked then log (StorageSetAccounts a) m1 else m1)
      in m2\<lparr>accounts_f := a\<rparr>)"

definition get_accounts :: "provider_src \<Rightarrow> manager \<Rightarrow> accounts_val" where
  "get_accounts v m = (if v = StorageBacked then AccountsPromise else AccountList (accounts_f m))"

definition get_selectedChainId :: "provider_src \<Rightarrow> manager \<Rightarrow> jsval" where
  "get_selectedChainId v m = (if v = StorageBacked then Promise else selectedChainId_f m)"

text \<open>
  The setter of \<open>selectedChainId\<close>. A truthy number is converted; a falsy result returns
  early (in \<open>provider.ts\<close> also one that is not a string); anything else is stored.
\<close>

definition set_selectedChainId :: "provider_src \<Rightarrow> jsval \<Rightarrow> manager \<Rightarrow> unit outcome \<times> manager" where
  "set_selectedChainId v chainId m =
     (let m0 = log (SetSelectedChainId chainId) m
      in case (if truthy chainId \<and> is_number chainId
               then map_sum id Str (numberToHex chainId) else Inr chainId) of
           Inl e \<Rightarrow> (Throws e, m0)
         | Inr hexChainId \<Rightarrow>
             if v = InMemory
             then (if \<not> truthy hexChainId then (Returns (), m0)
                   else (Returns (), m0\<lparr>selectedChainId_f := hexChainId\<rparr>))
             else (if \<not> truthy hexChainId \<or> \<not> is_string hexChainId then (Returns (), m0)
                   else (Returns (),
                         (log (StorageSetSelectedChainId (case hexChainId of Str h \<Rightarrow> h | _ \<Rightarrow> []))
                            m0)\<lparr>selectedChainId_f := hexChainId\<rparr>)))"


text \<open>Sequencing: a thrown error ends the rest of the function; what was written to the
  state before it stays written.\<close>

definition and_then ::
  "'a outcome \<times> manager \<Rightarrow> ('a \<Rightarrow> manager \<Rightarrow> 'b outcome \<times> manager) \<Rightarrow> 'b outcome \<times> manager" where
  "and_then r f = (case r of (Returns x, m) \<Rightarrow> f x m | (Throws e, m) \<Rightarrow> (Throws e, m))"

section \<open>The connection manager\<close>

definition emit :: "event \<Rightarrow> manager \<Rightarrow> manager" where
  "emit e m = log (Emit e) m"

fun supplied :: "handlers \<Rightarrow> event \<Rightarrow> bool" where
  "supplied h (Connect c) = h_connect h"
| "supplied h Disconnect = h_disconnect h"
| "supplied h (AccountsChanged a) = h_accountsChanged h"
| "supplied h (ChainChanged c) = h_chainChanged h"

text \<open>\<open>this.#eventHandlers?.name?.(payload)\<close>: the call is made when the handler exists.\<close>

definition callback :: "event \<Rightarrow> manager \<Rightarrow> manager" where
  "callback e m =
     (case eventHandlers m of
        None \<Rightarrow> m
      | Some h \<Rightarrow> if supplied h e then log (Callback e) m else m)"

text \<open>\<open>#request\<close>: hands the request to the transport's \<open>sendEip1193Message\<close>.\<close>

definition send_request :: "string \<Rightarrow> message_params \<Rightarrow> manager \<Rightarrow> manager" where
  "send_request method ps m = log (SendEip1193Message method ps) m"

text \<open>The expression \<open>isHex(chainId) ? chainId : numberToHex(chainId)\<close>.\<close>

fun hexChainId_of :: "jsval \<Rightarrow> error + string" where
  "hexChainId_of (Str s) = (if isHex (Str s) then Inr s else numberToHex (Str s))"
| "hexChainId_of v = numberToHex v"

definition onChainChanged :: "provider_src \<Rightarrow> jsval \<Rightarrow> manager \<Rightarrow> unit outcome \<times> manager" where
  "onChainChanged v chainId m =
     (case hexChainId_of chainId of
        Inl e \<Rightarrow> (Throws e, m)
      | Inr hexChainId \<Rightarrow>
          and_then (set_selectedChainId v chainId m)
            (\<lambda>_ m1. (Returns (),
                      emit (ChainChanged hexChainId) (callback (ChainChanged hexChainId) m1))))"

definition onAccountsChanged :: "provider_src \<Rightarrow> string list \<Rightarrow> manager \<Rightarrow> manager" where
  "onAccountsChanged v accounts m =
     callback (AccountsChanged accounts) (emit (AccountsChanged accounts) (set_accounts v accounts m))"

definition onConnect :: "provider_src \<Rightarrow> jsval \<Rightarrow> manager \<Rightarrow> unit outcome \<times> manager" where
  "onConnect v chainId m =
     (case hexChainId_of chainId of
        Inl e \<Rightarrow> (Throws e, m)
      | Inr h \<Rightarrow> onChainChanged v chainId (callback (Connect h) (emit (Connect h) m)))"

definition onDisconnect :: "provider_src \<Rightarrow> manager \<Rightarrow> manager" where
  "onDisconnect v m = onAccountsChanged v [] (callback Disconnect (emit Disconnect m))"

definition clearConnectionState :: "provider_src \<Rightarrow> manager \<Rightarrow> unit outcome \<times> manager" where
  "clearConnectionState v m = set_selectedChainId v Undefined (set_accounts v [] m)"

definition addEthereumChain :: "chain_config option \<Rightarrow> manager \<Rightarrow> unit outcome \<times> manager" where
  "addEthereumChain chainConfiguration m =
     (case (case chainConfiguration of Some c \<Rightarrow> Some c | None \<Rightarrow> latestChainConfiguration m) of
        None \<Rightarrow> (Throws NoChainConfiguration, m)
      | Some config \<Rightarrow> (Returns (), send_request ''wallet_addEthereumChain'' (AddChain config) m))"

definition getPermittedEthChainIds :: "scopes \<Rightarrow> string list" where
  "getPermittedEthChainIds sc = permitted sc"

definition switchChain ::
  "provider_src \<Rightarrow> jsval \<Rightarrow> chain_config option \<Rightarrow> manager \<Rightarrow> unit outcome \<times> manager" where
  "switchChain v chainId chainConfiguration m =
     (case hexChainId_of chainId of
        Inl e \<Rightarrow> (Throws e, m)
      | Inr hexChainId \<Rightarrow>
          if get_selectedChainId v m = Str hexChainId then (Returns (), m)
          else if hexChainId \<in> set (getPermittedEthChainIds (sessionScopes m))
          then onChainChanged v (Str hexChainId) m
          else (Returns (),
                send_request ''wallet_switchEthereumChain'' (SwitchTo hexChainId)
                  (m\<lparr>latestChainConfiguration := chainConfiguration\<rparr>)))"

text \<open>\<open>session?.sessionScopes ?? {}\<close>; \<open>None\<close> is a missing session or a session without
  scopes.\<close>

definition sessionChangedHandler :: "scopes option \<Rightarrow> manager \<Rightarrow> manager" where
  "sessionChangedHandler session m =
     m\<lparr>sessionScopes := (case session of Some sc \<Rightarrow> sc | None \<Rightarrow> Scopes [])\<rparr>"

definition addEventListener :: "listener \<Rightarrow> manager \<Rightarrow> manager" where
  "addEventListener l m =
     log (AddEventListener l)
       (m\<lparr>window_listeners :=
            (if l \<in> set (window_listeners m) then window_listeners m
             else window_listeners m @ [l])\<rparr>)"

definition removeEventListener :: "listener \<Rightarrow> manager \<Rightarrow> manager" where
  "removeEventListener l m =
     log (RemoveEventListener l) (m\<lparr>window_listeners := removeAll l (window_listeners m)\<rparr>)"

subsection \<open>connect and disconnect\<close>

text \<open>
  Both are asynchronous and suspend once, at the call into the core. The part before the
  suspension and the part after it are separate functions, so that the state in which the
  second part resumes is explicit; \<open>sdk\<close> is what the core answers: \<open>None\<close> when its promise
  resolves, \<open>Some e\<close> when it rejects with \<open>e\<close>.
\<close>

record connect_args =
  chainId :: int
  account :: "string option"

record connect_result =
  accounts :: accounts_val
  resultChainId :: int

definition caipChainId :: "connect_args \<Rightarrow> string list" where
  "caipChainId a = (if chainId a \<noteq> 0 then [''eip155:'' @ toString10 (chainId a)] else [])"

definition caipAccountId :: "connect_args \<Rightarrow> string list" where
  "caipAccountId a =
     (case account a of
        None \<Rightarrow> []
      | Some acc \<Rightarrow>
          if chainId a \<noteq> 0 \<and> acc \<noteq> []
          then [''eip155:'' @ toString10 (chainId a) @ '':'' @ acc] else [])"

definition connect_call :: "connect_args \<Rightarrow> manager \<Rightarrow> manager" where
  "connect_call a m = log (CoreConnect (caipChainId a) (caipAccountId a)) m"

definition connect_resume ::
  "provider_src \<Rightarrow> error option \<Rightarrow> connect_args \<Rightarrow> manager \<Rightarrow> connect_result outcome \<times> manager" where
  "connect_resume v sdk a m =
     (case sdk of
        Some e \<Rightarrow> (Throws e, m)
      | None \<Rightarrow>
          (case numberToHex (Num (chainId a)) of
             Inl e \<Rightarrow> (Throws e, m)
           | Inr h \<Rightarrow>
               and_then (set_selectedChainId v (Str h) m)
                 (\<lambda>_ m1.
                    let m2 = log OnNotification
                               (m1\<lparr>notification_callbacks := Suc (notification_callbacks m1)\<rparr>)
                    in and_then (onConnect v (get_selectedChainId v m2) m2)
                         (\<lambda>_ m3.
                            case hexToNumber (get_selectedChainId v m3) of
                              Inl e \<Rightarrow> (Throws e, m3)
                            | Inr n \<Rightarrow>
                                (Returns \<lparr>accounts = get_accounts v m3, resultChainId = n\<rparr>,
                                 m3)))))"

definition connect ::
  "provider_src \<Rightarrow> error option \<Rightarrow> connect_args \<Rightarrow> manager \<Rightarrow> connect_result outcome \<times> manager" where
  "connect v sdk a m = connect_resume v sdk a (connect_call a m)"

definition disconnect_call :: "manager \<Rightarrow> manager" where
  "disconnect_call m = log CoreDisconnect m"

definition disconnect_resume ::
  "provider_src \<Rightarrow> error option \<Rightarrow> manager \<Rightarrow> unit outcome \<times> manager" where
  "disconnect_resume v sdk m =
     (case sdk of
        Some e \<Rightarrow> (Throws e, m)
      | None \<Rightarrow>
          and_then (clearConnectionState v (onDisconnect v m))
            (\<lambda>_ m1. (Returns (),
                      log (CoreOff SessionChangedHandler)
                        (removeEventListener MetamaskProviderHandler m1))))"

definition disconnect :: "provider_src \<Rightarrow> error option \<Rightarrow> manager \<Rightarrow> unit outcome \<times> manager" where
  "disconnect v sdk m = disconnect_resume v sdk (disconnect_call m)"


subsection \<open>Inbound messages\<close>

text \<open>
  The \<open>method\<close> and \<open>params\<close> of an inbound record. The payload of
  \<open>MetamaskChainChanged\<close> is \<open>None\<close> when the record has no \<open>params\<close>, and the value of
  \<open>params.chainId\<close> otherwise (\<open>Undefined\<close> when the property is missing).
  \<open>OtherMethod\<close> is any method name but the two that are relayed.
\<close>

datatype notification =
    NoMethod
  | OtherMethod
  | MetamaskAccountsChanged "string list"
  | MetamaskChainChanged "jsval option"

text \<open>The \<open>result\<close> of an inbound record; an entry of an array that is not a string is
  no address, as any string that is none.\<close>

datatype result_val = NoResult | NotAnArray | ResultArray "string list"

record message_data =
  d_notification :: notification
  d_result :: result_val
  d_error_code :: "int option"

text \<open>A window \<open>message\<close> event: \<open>event.data.data.name\<close>, whether \<open>event.origin\<close> is
  \<open>location.origin\<close>, and \<open>event.data.data.data\<close>.\<close>

record message_event =
  ev_name :: "string option"
  ev_same_origin :: bool
  ev_data :: "message_data option"

definition isMetamaskProviderEvent :: "message_event \<Rightarrow> bool" where
  "isMetamaskProviderEvent ev = (ev_name ev = Some ''metamask-provider'' \<and> ev_same_origin ev)"

definition metamaskProviderHandler ::
  "provider_src \<Rightarrow> message_event \<Rightarrow> manager \<Rightarrow> unit outcome \<times> manager" where
  "metamaskProviderHandler v ev m =
     (if isMetamaskProviderEvent ev
      then
        (let m1 = (case ev_data ev of
                     Some d \<Rightarrow>
                       (case d_notification d of
                          MetamaskAccountsChanged a \<Rightarrow> onAccountsChanged v a m
                        | _ \<Rightarrow> m)
                   | None \<Rightarrow> m)
         in and_then
              (case ev_data ev of
                 Some d \<Rightarrow>
                   (case d_notification d of
                      MetamaskChainChanged None \<Rightarrow> (Throws TypeError, m1)
                    | MetamaskChainChanged (Some c) \<Rightarrow> onChainChanged v (Number c) m1
                    | _ \<Rightarrow> (Returns (), m1))
               | None \<Rightarrow> (Returns (), m1))
              (\<lambda>_ m2.
                 case ev_data ev of
                   Some d \<Rightarrow>
                     if d_error_code d = Some 4902 then addEthereumChain None m2
                     else (Returns (), m2)
                 | None \<Rightarrow> (Returns (), m2)))
      else (Returns (), m))"

text \<open>The callback that \<open>connect\<close> gives to \<open>transport.onNotification\<close>; a missing
  \<open>params\<close> reads as \<open>undefined\<close> here.\<close>

definition transportNotification ::
  "provider_src \<Rightarrow> notification \<Rightarrow> manager \<Rightarrow> unit outcome \<times> manager" where
  "transportNotification v n m =
     (let m1 = (case n of MetamaskAccountsChanged a \<Rightarrow> onAccountsChanged v a m | _ \<Rightarrow> m)
      in case n of
           MetamaskChainChanged None \<Rightarrow> onChainChanged v (Number Undefined) m1
         | MetamaskChainChanged (Some c) \<Rightarrow> onChainChanged v (Number c) m1
         | _ \<Rightarrow> (Returns (), m1))"

text \<open>\<open>isHexAddress\<close> of \<open>@metamask/utils\<close>: a string matching
  \<^verbatim>\<open>/^0x[0-9a-f]{40}$/u\<close>.\<close>

definition isHexAddress :: "string \<Rightarrow> bool" where
  "isHexAddress s =
     (take 2 s = ''0x'' \<and> length s = 42 \<and> list_all (\<lambda>c. c \<in> set ''0123456789abcdef'') (drop 2 s))"

text \<open>The one-time listener of \<open>#attemptSessionRecovery\<close>.\<close>

definition recoverSession ::
  "provider_src \<Rightarrow> message_event \<Rightarrow> manager \<Rightarrow> unit outcome \<times> manager" where
  "recoverSession v ev m =
     (if isMetamaskProviderEvent ev
      then (case ev_data ev of
              None \<Rightarrow> (Throws TypeError, m)
            | Some d \<Rightarrow>
                (case d_result d of
                   ResultArray result \<Rightarrow>
                     if list_all isHexAddress result
                     then (Returns (),
                           removeEventListener RecoverSession (onAccountsChanged v result m))
                     else (Returns (), m)
                 | _ \<Rightarrow> (Returns (), m)))
      else (Returns (), m))"

text \<open>The queue is given by the \<open>method\<close> of each of its records.\<close>

definition attemptSessionRecovery :: "string option list option \<Rightarrow> manager \<Rightarrow> manager" where
  "attemptSessionRecovery events m =
     (case events of
        None \<Rightarrow> m
      | Some es \<Rightarrow>
          if list_ex (\<lambda>n. n = Some ''wallet_sessionChanged'') es
          then send_request ''eth_accounts'' Empty (addEventListener RecoverSession m)
          else m)"

definition new_manager :: "handlers option \<Rightarrow> manager" where
  "new_manager hs =
     \<lparr>accounts_f = [], selectedChainId_f = Undefined, sessionScopes = Scopes [],
      eventHandlers = hs, latestChainConfiguration = None, window_listeners = [],
      notification_callbacks = 0, trace = []\<rparr>"

definition constructor :: "handlers option \<Rightarrow> string option list option \<Rightarrow> manager" where
  "constructor hs notificationQueue =
     attemptSessionRecovery notificationQueue
       (log (CoreOn SessionChangedHandlerBound)
          (addEventListener MetamaskProviderHandler (new_manager hs)))"

text \<open>
  The window delivers a \<open>message\<close> event to the listeners registered when the dispatch
  starts, in the order of their registration, leaves out one that was removed in the
  meantime, and goes on after a listener that throws.
\<close>

definition run_listener :: "provider_src \<Rightarrow> message_event \<Rightarrow> listener \<Rightarrow> manager \<Rightarrow> manager" where
  "run_listener v ev l m =
     (case l of
        MetamaskProviderHandler \<Rightarrow> snd (metamaskProviderHandler v ev m)
      | RecoverSession \<Rightarrow> snd (recoverSession v ev m))"

definition dispatch_message :: "provider_src \<Rightarrow> message_event \<Rightarrow> manager \<Rightarrow> manager" where
  "dispatch_message v ev m =
     foldl (\<lambda>m' l. if l \<in> set (window_listeners m') then run_listener v ev l m' else m')
       m (window_listeners m)"

definition dispatch_all :: "provider_src \<Rightarrow> message_event list \<Rightarrow> manager \<Rightarrow> manager" where
  "dispatch_all v evs m = foldl (\<lambda>m' ev. dispatch_message v ev m') m evs"

subsection \<open>The provider's request and the manager's interceptor\<close>

text \<open>The two method lists of \<open>constants.ts\<close>, which the sources at hand do not include,
  are parameters.\<close>

record env =
  INTERCEPTABLE_METHODS :: "string list"
  IGNORED_METHODS :: "string list"

datatype result =
    RUndefined
  | RConnected connect_result
  | RAccounts accounts_val
  | RInvokeMethod

definition request ::
  "env \<Rightarrow> (provider_request \<Rightarrow> manager \<Rightarrow> result outcome \<times> manager) \<Rightarrow>
   provider_request \<Rightarrow> manager \<Rightarrow> result outcome \<times> manager" where
  "request E requestInterceptor rq m =
     (if rq_method rq \<in> set (INTERCEPTABLE_METHODS E) then requestInterceptor rq m
      else if \<not> truthy (selectedChainId_f m) then (Throws NoChainSelected, m)
      else (case hexToNumber (selectedChainId_f m) of
              Inl e \<Rightarrow> (Throws e, m)
            | Inr n \<Rightarrow>
                (Returns RInvokeMethod,
                 log (InvokeMethod (''eip155:'' @ toString10 n) (rq_method rq) (rq_params rq)) m)))"

definition is_space :: "char \<Rightarrow> bool" where
  "is_space c = (c \<in> set [CHR '' '', CHR 0x09, CHR 0x0A, CHR 0x0B, CHR 0x0C, CHR 0x0D])"

text \<open>\<open>parseInt(s, 16)\<close>: leading white space, a sign, an optional \<open>0x\<close>, and the longest
  run of hex digits; \<open>NaN\<close> when there is none.\<close>

definition parseInt16 :: "string \<Rightarrow> jsval" where
  "parseInt16 s =
     (let t = dropWhile is_space s;
          u = (if take 1 t = ''-'' \<or> take 1 t = ''+'' then drop 1 t else t);
          w = (if has_0x u then drop 2 u else u);
          ds = takeWhile is_hex_digit w
      in if ds = [] then NaN
         else Num ((if take 1 t = ''-'' then - 1 else 1) * int (parse_digits 16 ds)))"

definition isConnectRequest :: "provider_request \<Rightarrow> bool" where
  "isConnectRequest rq =
     (rq_method rq = ''wallet_requestPermissions'' \<or> rq_method rq = ''eth_requestAccounts'')"

definition isSwitchChainRequest :: "provider_request \<Rightarrow> bool" where
  "isSwitchChainRequest rq = (rq_method rq = ''wallet_switchEthereumChain'')"

definition isAddChainRequest :: "provider_request \<Rightarrow> bool" where
  "isAddChainRequest rq = (rq_method rq = ''wallet_addEthereumChain'')"

definition isAccountsRequest :: "provider_request \<Rightarrow> bool" where
  "isAccountsRequest rq = (rq_method rq = ''eth_accounts'' \<or> rq_method rq = ''eth_coinbase'')"

definition returning :: "'b \<Rightarrow> 'a outcome \<times> manager \<Rightarrow> 'b outcome \<times> manager" where
  "returning y r = and_then r (\<lambda>_ m. (Returns y, m))"

text \<open>
  \<open>#requestInterceptor\<close>. A request whose \<open>params\<close> are missing makes the reads of
  \<open>params[0]\<close> throw; \<open>params\<close> of another method's shape are no \<open>ProviderRequest\<close> and
  are treated in the same way.
\<close>

definition requestInterceptor ::
  "provider_src \<Rightarrow> env \<Rightarrow> error option \<Rightarrow> provider_request \<Rightarrow> manager \<Rightarrow>
   result outcome \<times> manager" where
  "requestInterceptor v E sdk rq m =
     (if rq_method rq \<in> set (IGNORED_METHODS E) then (Throws (UnsupportedMethod (rq_method rq)), m)
      else if rq_method rq = ''wallet_revokePermissions''
      then returning RUndefined (disconnect v sdk m)
      else if isConnectRequest rq
      then (case rq_params rq of
              ConnectParams c a \<Rightarrow>
                and_then
                  (connect v sdk \<lparr>chainId = (case c of Some n \<Rightarrow> n | None \<Rightarrow> 1), account = a\<rparr> m)
                  (\<lambda>r m1. (Returns (RConnected r), m1))
            | _ \<Rightarrow> (Throws TypeError, m))
      else if isSwitchChainRequest rq
      then (case rq_params rq of
              SwitchChainParams c \<Rightarrow> returning RUndefined (switchChain v (parseInt16 c) None m)
            | _ \<Rightarrow> (Throws TypeError, m))
      else if isAddChainRequest rq
      then (case rq_params rq of
              AddChainParams config \<Rightarrow> returning RUndefined (addEthereumChain (Some config) m)
            | _ \<Rightarrow> (Throws TypeError, m))
      else if isAccountsRequest rq then (Returns (RAccounts (get_accounts v m)), m)
      else (Returns RUndefined, m))"

section \<open>Reading the sequence of calls\<close>

fun is_emit :: "effect \<Rightarrow> bool" where
  "is_emit (Emit e) = True"
| "is_emit e = False"

fun is_invoke :: "effect \<Rightarrow> bool" where
  "is_invoke (InvokeMethod s mt ps) = True"
| "is_invoke e = False"

fun is_send :: "effect \<Rightarrow> bool" where
  "is_send (SendEip1193Message mt ps) = True"
| "is_send e = False"

fun is_storage_write :: "effect \<Rightarrow> bool" where
  "is_storage_write (StorageSetAccounts a) = True"
| "is_storage_write (StorageSetSelectedChainId h) = True"
| "is_storage_write e = False"

fun is_setter :: "effect \<Rightarrow> bool" where
  "is_setter (SetAccounts a) = True"
| "is_setter (SetSelectedChainId c) = True"
| "is_setter e = False"

text \<open>The payloads of the \<open>accountsChanged\<close> events emitted, in their order.\<close>

fun accountsChanged_events :: "effect list \<Rightarrow> string list list" where
  "accountsChanged_events [] = []"
| "accountsChanged_events (Emit (AccountsChanged a) # es) = a # accountsChanged_events es"
| "accountsChanged_events (e # es) = accountsChanged_events es"

text \<open>What \<open>callback\<close> adds to the calls: the handler's call when it is supplied.\<close>

definition callbacks_made :: "manager \<Rightarrow> event \<Rightarrow> effect list" where
  "callbacks_made m e =
     (case eventHandlers m of
        None \<Rightarrow> []
      | Some h \<Rightarrow> if supplied h e then [Callback e] else [])"

text \<open>What the accounts setter of the storage-backed provider adds after the call itself.\<close>

definition storage_of_accounts :: "provider_src \<Rightarrow> string list \<Rightarrow> effect list" where
  "storage_of_accounts v a = (if v = StorageBacked then [StorageSetAccounts a] else [])"

text \<open>What the chain setter of the storage-backed provider adds after the call itself, for
  a value \<open>c\<close> whose hex form is \<open>h\<close>: the number zero is not stored.\<close>

definition storage_of_chain :: "provider_src \<Rightarrow> jsval \<Rightarrow> string \<Rightarrow> effect list" where
  "storage_of_chain v c h =
     (if v = StorageBacked \<and> c \<noteq> Num 0 then [StorageSetSelectedChainId h] else [])"

text \<open>The calls that concern the selected chain.\<close>

fun about_chain :: "effect \<Rightarrow> bool" where
  "about_chain (SetSelectedChainId c) = True"
| "about_chain (StorageSetSelectedChainId h) = True"
| "about_chain (Emit (ChainChanged h)) = True"
| "about_chain (Callback (ChainChanged h)) = True"
| "about_chain e = False"



text \<open>A record whose \<open>metamask_chainChanged\<close> notification, if it is one, carries a chain id
  that \<open>Number\<close> reads as a non-negative safe integer.\<close>

fun chain_notification_ok :: "notification \<Rightarrow> bool" where
  "chain_notification_ok (MetamaskChainChanged None) = False"
| "chain_notification_ok (MetamaskChainChanged (Some c)) =
     (case hexChainId_of (Number c) of Inl e \<Rightarrow> False | Inr h \<Rightarrow> True)"
| "chain_notification_ok n = True"

subsection \<open>Sample values\<close>

text \<open>The chain configuration that the playground's \<open>App.tsx\<close> sends.\<close>

definition polygon :: chain_config where
  "polygon =
     \<lparr>cc_chainId = Some ''0x89'', cc_chainName = Some ''Polygon'',
      cc_nativeCurrency = Some \<lparr>nc_name = None, nc_symbol = Some ''MATIC'', nc_decimals = Some 18\<rparr>,
      cc_rpcUrls = Some [''https://polygon-rpc.com/''],
      cc_blockExplorerUrls = Some [''https://polygonscan.com''], cc_iconUrls = None\<rparr>"

definition all_handlers :: handlers where
  "all_handlers =
     \<lparr>h_connect = True, h_disconnect = True, h_accountsChanged = True, h_chainChanged = True\<rparr>"

text \<open>A provider message that announces the chain \<open>c\<close>.\<close>

definition chainChanged_message :: "string \<Rightarrow> message_event" where
  "chainChanged_message c =
     \<lparr>ev_name = Some ''metamask-provider'', ev_same_origin = True,
      ev_data = Some \<lparr>d_notification = MetamaskChainChanged (Some (Str c)), d_result = NoResult,
                       d_error_code = None\<rparr>\<rparr>"

text \<open>A provider message that answers a request with an error code.\<close>

definition error_message :: "int \<Rightarrow> message_event" where
  "error_message code =
     \<lparr>ev_name = Some ''metamask-provider'', ev_same_origin = True,
      ev_data = Some \<lparr>d_notification = NoMethod, d_result = NoResult, d_error_code = Some code\<rparr>\<rparr>"

text \<open>A provider message that answers a request with an array.\<close>

definition result_message :: "string list \<Rightarrow> message_event" where
  "result_message r =
     \<lparr>ev_name = Some ''metamask-provider'', ev_same_origin = True,
      ev_data = Some \<lparr>d_notification = NoMethod, d_result = ResultArray r, d_error_code = None\<rparr>\<rparr>"

text \<open>The intercepted method names, as the provider's interface lists them.\<close>

definition sample_env :: env where
  "sample_env =
     \<lparr>INTERCEPTABLE_METHODS =
        [''wallet_requestPermissions'', ''eth_requestAccounts'', ''wallet_revokePermissions'',
         ''wallet_switchEthereumChain'', ''wallet_addEthereumChain'', ''eth_accounts'',
         ''eth_coinbase''],
      IGNORED_METHODS = []\<rparr>"

text \<open>A provider message that is a \<open>metamask_accountsChanged\<close> notification.\<close>

definition accountsChanged_message :: "string list \<Rightarrow> message_event" where
  "accountsChanged_message a =
     \<lparr>ev_name = Some ''metamask-provider'', ev_same_origin = True,
      ev_data = Some \<lparr>d_notification = MetamaskAccountsChanged a, d_result = NoResult,
                       d_error_code = None\<rparr>\<rparr>"

text \<open>Two addresses, and a string that is none.\<close>

definition address_a :: string where
  "address_a = ''0x'' @ replicate 40 (CHR ''a'')"

definition address_b :: string where
  "address_b = ''0x'' @ replicate 40 (CHR ''b'')"


section \<open>The hex conversions\<close>

declare to_radix.simps [simp del]

lemma digit_value_digit_char_all:
  "list_all (\<lambda>d. digit_value (digit_char d) = Some d) [0..<16]"
  by code_simp

lemma digit_value_digit_char: "d < 16 \<Longrightarrow> digit_value (digit_char d) = Some d"
  using digit_value_digit_char_all by (simp add: list_all_iff)

lemma is_hex_digit_digit_char: "d < 16 \<Longrightarrow> is_hex_digit (digit_char d)"
  by (simp add: is_hex_digit_def digit_value_digit_char)

lemma parse_digits_snoc:
  "parse_digits b (s @ [c]) = b * parse_digits b s + (case digit_value c of Some d \<Rightarrow> d | None \<Rightarrow> 0)"
  by (simp add: parse_digits_def)

lemma parse_digits_single: "parse_digits b [c] = (case digit_value c of Some d \<Rightarrow> d | None \<Rightarrow> 0)"
  by (simp add: parse_digits_def)

text \<open>Reading back what \<open>toString(16)\<close> wrote gives the number.\<close>

lemma parse_to_radix16: "parse_digits 16 (to_radix 16 n) = n"
proof (induction "16::nat" n rule: to_radix.induct)
  case (1 n)
  show ?case
  proof (cases "n < 16")
    case True
    then show ?thesis
      by (subst to_radix.simps) (simp add: parse_digits_single digit_value_digit_char)
  next
    case False
    then have "parse_digits 16 (to_radix 16 (n div 16)) = n div 16"
      using 1 by simp
    with False show ?thesis
      by (subst to_radix.simps) (simp add: parse_digits_snoc digit_value_digit_char)
  qed
qed

lemma hex_chars_to_radix16: "hex_chars (to_radix 16 n)"
proof (induction "16::nat" n rule: to_radix.induct)
  case (1 n)
  show ?case
  proof (cases "n < 16")
    case True
    then show ?thesis
      by (subst to_radix.simps) (simp add: hex_chars_def is_hex_digit_digit_char)
  next
    case False
    then have "hex_chars (to_radix 16 (n div 16))"
      using 1 by simp
    with False show ?thesis
      by (subst to_radix.simps) (simp add: hex_chars_def is_hex_digit_digit_char)
  qed
qed

lemma isHex_0x_toString16: "isHex (Str (''0x'' @ toString16 n))"
  by (simp add: toString16_def hex_chars_to_radix16 has_0x_def)

lemma numberToHex_cases:
  "numberToHex c = Inr h \<Longrightarrow>
   \<exists>n. c = Num n \<and> 0 \<le> n \<and> n \<le> MAX_SAFE_INTEGER \<and> h = ''0x'' @ toString16 (nat n)"
  by (cases c) (auto split: if_splits)

lemma isHex_numberToHex: "numberToHex c = Inr h \<Longrightarrow> isHex (Str h)"
  using isHex_0x_toString16 by (auto dest!: numberToHex_cases simp del: isHex.simps)

lemma hexToNumber_numberToHex: "numberToHex (Num n) = Inr h \<Longrightarrow> hexToNumber (Str h) = Inr n"
  by (auto simp: toString16_def hex_chars_to_radix16 parse_to_radix16 has_0x_def split: if_splits)

lemma numberToHex_nonempty: "numberToHex c = Inr h \<Longrightarrow> h \<noteq> []"
  by (auto dest!: numberToHex_cases)

lemma hexChainId_of_isHex: "hexChainId_of c = Inr h \<Longrightarrow> isHex (Str h)"
  by (cases c) (auto simp del: isHex.simps numberToHex.simps dest: isHex_numberToHex split: if_splits)

lemma isHex_nonempty: "isHex (Str h) \<Longrightarrow> h \<noteq> []"
  by (auto simp: hex_chars_def has_0x_def)

lemma hexChainId_of_Str_isHex: "isHex (Str h) \<Longrightarrow> hexChainId_of (Str h) = Inr h"
  by (simp del: isHex.simps)

section \<open>What each step leaves alone\<close>

lemma trace_log [simp]: "trace (log e m) = trace m @ [e]"
  by (simp add: log_def)

lemma fields_log [simp]:
  "accounts_f (log e m) = accounts_f m"
  "selectedChainId_f (log e m) = selectedChainId_f m"
  "sessionScopes (log e m) = sessionScopes m"
  "eventHandlers (log e m) = eventHandlers m"
  "latestChainConfiguration (log e m) = latestChainConfiguration m"
  "window_listeners (log e m) = window_listeners m"
  "notification_callbacks (log e m) = notification_callbacks m"
  by (simp_all add: log_def)

lemma fields_callback [simp]:
  "accounts_f (callback e m) = accounts_f m"
  "selectedChainId_f (callback e m) = selectedChainId_f m"
  "sessionScopes (callback e m) = sessionScopes m"
  "eventHandlers (callback e m) = eventHandlers m"
  "latestChainConfiguration (callback e m) = latestChainConfiguration m"
  "window_listeners (callback e m) = window_listeners m"
  "notification_callbacks (callback e m) = notification_callbacks m"
  "trace (callback e m) = trace m @ callbacks_made m e"
  by (simp_all add: callback_def callbacks_made_def split: option.splits)

lemma fields_emit [simp]:
  "accounts_f (emit e m) = accounts_f m"
  "selectedChainId_f (emit e m) = selectedChainId_f m"
  "sessionScopes (emit e m) = sessionScopes m"
  "eventHandlers (emit e m) = eventHandlers m"
  "latestChainConfiguration (emit e m) = latestChainConfiguration m"
  "window_listeners (emit e m) = window_listeners m"
  "notification_callbacks (emit e m) = notification_callbacks m"
  "trace (emit e m) = trace m @ [Emit e]"
  by (simp_all add: emit_def)

lemma fields_send_request [simp]:
  "accounts_f (send_request mt ps m) = accounts_f m"
  "selectedChainId_f (send_request mt ps m) = selectedChainId_f m"
  "sessionScopes (send_request mt ps m) = sessionScopes m"
  "eventHandlers (send_request mt ps m) = eventHandlers m"
  "latestChainConfiguration (send_request mt ps m) = latestChainConfiguration m"
  "window_listeners (send_request mt ps m) = window_listeners m"
  "notification_callbacks (send_request mt ps m) = notification_callbacks m"
  "trace (send_request mt ps m) = trace m @ [SendEip1193Message mt ps]"
  by (simp_all add: send_request_def)

lemma fields_set_accounts [simp]:
  "accounts_f (set_accounts v a m) = a"
  "selectedChainId_f (set_accounts v a m) = selectedChainId_f m"
  "sessionScopes (set_accounts v a m) = sessionScopes m"
  "eventHandlers (set_accounts v a m) = eventHandlers m"
  "latestChainConfiguration (set_accounts v a m) = latestChainConfiguration m"
  "window_listeners (set_accounts v a m) = window_listeners m"
  "notification_callbacks (set_accounts v a m) = notification_callbacks m"
  "trace (set_accounts v a m) = trace m @ SetAccounts a # storage_of_accounts v a"
  by (simp_all add: set_accounts_def Let_def storage_of_accounts_def)

lemma fields_set_selectedChainId [simp]:
  "accounts_f (snd (set_selectedChainId v c m)) = accounts_f m"
  "sessionScopes (snd (set_selectedChainId v c m)) = sessionScopes m"
  "eventHandlers (snd (set_selectedChainId v c m)) = eventHandlers m"
  "latestChainConfiguration (snd (set_selectedChainId v c m)) = latestChainConfiguration m"
  "window_listeners (snd (set_selectedChainId v c m)) = window_listeners m"
  "notification_callbacks (snd (set_selectedChainId v c m)) = notification_callbacks m"
  by (simp_all add: set_selectedChainId_def Let_def split: sum.splits)

lemma callbacks_made_cong [simp]:
  "callbacks_made (log e m) = callbacks_made m"
  "callbacks_made (emit ev m) = callbacks_made m"
  "callbacks_made (callback ev m) = callbacks_made m"
  "callbacks_made (set_accounts v a m) = callbacks_made m"
  "callbacks_made (snd (set_selectedChainId v c m)) = callbacks_made m"
  by (simp_all add: callbacks_made_def fun_eq_iff)

lemma fields_onAccountsChanged [simp]:
  "accounts_f (onAccountsChanged v a m) = a"
  "selectedChainId_f (onAccountsChanged v a m) = selectedChainId_f m"
  "sessionScopes (onAccountsChanged v a m) = sessionScopes m"
  "eventHandlers (onAccountsChanged v a m) = eventHandlers m"
  "latestChainConfiguration (onAccountsChanged v a m) = latestChainConfiguration m"
  "window_listeners (onAccountsChanged v a m) = window_listeners m"
  "notification_callbacks (onAccountsChanged v a m) = notification_callbacks m"
  "trace (onAccountsChanged v a m) =
     trace m @ SetAccounts a # storage_of_accounts v a @
       [Emit (AccountsChanged a)] @ callbacks_made m (AccountsChanged a)"
  by (simp_all add: onAccountsChanged_def)

lemma set_selectedChainId_Undefined [simp]:
  "set_selectedChainId v Undefined m = (Returns (), log (SetSelectedChainId Undefined) m)"
  by (cases v) (simp_all add: set_selectedChainId_def)

lemma and_then_Returns [simp]: "and_then (Returns x, m) f = f x m"
  by (simp add: and_then_def)

lemma and_then_Throws [simp]: "and_then (Throws e, m) f = (Throws e, m)"
  by (simp add: and_then_def)

lemma fields_removeEventListener [simp]:
  "accounts_f (removeEventListener l m) = accounts_f m"
  "selectedChainId_f (removeEventListener l m) = selectedChainId_f m"
  "sessionScopes (removeEventListener l m) = sessionScopes m"
  "eventHandlers (removeEventListener l m) = eventHandlers m"
  "latestChainConfiguration (removeEventListener l m) = latestChainConfiguration m"
  "window_listeners (removeEventListener l m) = removeAll l (window_listeners m)"
  "notification_callbacks (removeEventListener l m) = notification_callbacks m"
  "trace (removeEventListener l m) = trace m @ [RemoveEventListener l]"
  by (simp_all add: removeEventListener_def)

text \<open>The setter of the selected chain, when the value has a hex form: it returns, and
  it stores the value unless the value is the number zero.\<close>

lemma set_selectedChainId_hex:
  assumes "hexChainId_of c = Inr h"
  shows "fst (set_selectedChainId v c m) = Returns ()"
    and "selectedChainId_f (snd (set_selectedChainId v c m)) =
           (if c = Num 0 then selectedChainId_f m else Str h)"
    and "trace (snd (set_selectedChainId v c m)) =
           trace m @ SetSelectedChainId c # storage_of_chain v c h"
proof -
  consider (str) "c = Str h" "isHex (Str h)" | (num) n where "c = Num n" "numberToHex (Num n) = Inr h"
    using assms by (cases c) (auto simp del: isHex.simps numberToHex.simps(1) split: if_splits)
  then have "fst (set_selectedChainId v c m) = Returns () \<and>
      selectedChainId_f (snd (set_selectedChainId v c m)) =
           (if c = Num 0 then selectedChainId_f m else Str h) \<and>
      trace (snd (set_selectedChainId v c m)) =
           trace m @ SetSelectedChainId c # storage_of_chain v c h"
  proof cases
    case str
    then have "h \<noteq> []" using isHex_nonempty by blast
    with str show ?thesis
      by (cases v) (simp_all add: set_selectedChainId_def storage_of_chain_def del: isHex.simps)
  next
    case num
    then have "h \<noteq> []" using numberToHex_nonempty by blast
    with num show ?thesis
      by (cases v; cases "n = 0")
         (simp_all add: set_selectedChainId_def storage_of_chain_def del: numberToHex.simps)
  qed
  then show "fst (set_selectedChainId v c m) = Returns ()"
    and "selectedChainId_f (snd (set_selectedChainId v c m)) =
           (if c = Num 0 then selectedChainId_f m else Str h)"
    and "trace (snd (set_selectedChainId v c m)) =
           trace m @ SetSelectedChainId c # storage_of_chain v c h"
    by simp_all
qed

lemma onChainChanged_hex:
  assumes "hexChainId_of c = Inr h"
  shows "fst (onChainChanged v c m) = Returns ()"
    and "selectedChainId_f (snd (onChainChanged v c m)) =
           (if c = Num 0 then selectedChainId_f m else Str h)"
    and "trace (snd (onChainChanged v c m)) =
           trace m @ SetSelectedChainId c # storage_of_chain v c h @
             callbacks_made m (ChainChanged h) @ [Emit (ChainChanged h)]"
proof -
  obtain r m1 where r: "set_selectedChainId v c m = (r, m1)"
    by (cases "set_selectedChainId v c m")
  have r1: "r = Returns ()"
    using set_selectedChainId_hex(1) [OF assms, of v m] r by simp
  have m1: "m1 = snd (set_selectedChainId v c m)"
    using r by simp
  have eq: "onChainChanged v c m =
      (Returns (), emit (ChainChanged h) (callback (ChainChanged h) m1))"
    using assms r r1 by (simp add: onChainChanged_def)
  show "fst (onChainChanged v c m) = Returns ()"
    using eq by simp
  show "selectedChainId_f (snd (onChainChanged v c m)) =
           (if c = Num 0 then selectedChainId_f m else Str h)"
    using eq set_selectedChainId_hex(2) [OF assms, of v m] m1 by simp
  show "trace (snd (onChainChanged v c m)) =
           trace m @ SetSelectedChainId c # storage_of_chain v c h @
             callbacks_made m (ChainChanged h) @ [Emit (ChainChanged h)]"
    using eq set_selectedChainId_hex(3) [OF assms, of v m] m1 by simp
qed

lemma onChainChanged_fails:
  "hexChainId_of c = Inl e \<Longrightarrow> onChainChanged v c m = (Throws e, m)"
  by (simp add: onChainChanged_def)

lemma fields_onChainChanged [simp]:
  "accounts_f (snd (onChainChanged v c m)) = accounts_f m"
  "sessionScopes (snd (onChainChanged v c m)) = sessionScopes m"
  "eventHandlers (snd (onChainChanged v c m)) = eventHandlers m"
  "latestChainConfiguration (snd (onChainChanged v c m)) = latestChainConfiguration m"
  "window_listeners (snd (onChainChanged v c m)) = window_listeners m"
  "notification_callbacks (snd (onChainChanged v c m)) = notification_callbacks m"
proof -
  obtain r m1 where r: "set_selectedChainId v c m = (r, m1)"
    by (cases "set_selectedChainId v c m")
  have f: "accounts_f m1 = accounts_f m" "sessionScopes m1 = sessionScopes m"
    "eventHandlers m1 = eventHandlers m"
    "latestChainConfiguration m1 = latestChainConfiguration m"
    "window_listeners m1 = window_listeners m"
    "notification_callbacks m1 = notification_callbacks m"
    using fields_set_selectedChainId [of v c m] r by simp_all
  show "accounts_f (snd (onChainChanged v c m)) = accounts_f m"
    "sessionScopes (snd (onChainChanged v c m)) = sessionScopes m"
    "eventHandlers (snd (onChainChanged v c m)) = eventHandlers m"
    "latestChainConfiguration (snd (onChainChanged v c m)) = latestChainConfiguration m"
    "window_listeners (snd (onChainChanged v c m)) = window_listeners m"
    "notification_callbacks (snd (onChainChanged v c m)) = notification_callbacks m"
    using r f
    by (cases r; simp add: onChainChanged_def split: sum.splits)+
qed

text \<open>Whatever the chain id, the calls of \<open>onChainChanged\<close> all concern the chain.\<close>

lemma onChainChanged_about_chain:
  "\<exists>es. trace (snd (onChainChanged v c m)) = trace m @ es \<and> list_all about_chain es"
proof (cases "hexChainId_of c")
  case (Inl e)
  then show ?thesis
    by (simp add: onChainChanged_fails)
next
  case (Inr h)
  have "list_all about_chain
          (SetSelectedChainId c # storage_of_chain v c h @
             callbacks_made m (ChainChanged h) @ [Emit (ChainChanged h)])"
    by (simp add: storage_of_chain_def callbacks_made_def split: option.splits)
  then show ?thesis
    using onChainChanged_hex(3) [OF Inr, of v m] by (metis append_Cons)
qed

lemma fields_addEthereumChain [simp]:
  "accounts_f (snd (addEthereumChain x m)) = accounts_f m"
  "selectedChainId_f (snd (addEthereumChain x m)) = selectedChainId_f m"
  "sessionScopes (snd (addEthereumChain x m)) = sessionScopes m"
  "eventHandlers (snd (addEthereumChain x m)) = eventHandlers m"
  "latestChainConfiguration (snd (addEthereumChain x m)) = latestChainConfiguration m"
  "window_listeners (snd (addEthereumChain x m)) = window_listeners m"
  "notification_callbacks (snd (addEthereumChain x m)) = notification_callbacks m"
  by (simp_all add: addEthereumChain_def split: option.splits)

lemma addEthereumChain_pending:
  "latestChainConfiguration m = Some config \<Longrightarrow>
   addEthereumChain None m =
     (Returns (), send_request ''wallet_addEthereumChain'' (AddChain config) m)"
  "latestChainConfiguration m = None \<Longrightarrow> addEthereumChain None m = (Throws NoChainConfiguration, m)"
  by (simp_all add: addEthereumChain_def)

section \<open>The setter of the selected chain\<close>

text \<open>
  C7, as the code has it. Assigning a falsy value to \<open>selectedChainId\<close> (\<open>undefined\<close>, the
  empty string, and also the numbers \<open>0\<close> and \<open>NaN\<close>) does nothing but return: the stored
  value stays what it was, with either source of the provider. Assigning a number \<open>n\<close>
  with \<open>0 < n\<close> that is a safe integer stores \<open>numberToHex(n)\<close>, the string \<open>0x\<close>
  followed by the lower-case hexadecimal digits of \<open>n\<close>.
\<close>

theorem selectedChainId_setter:
  "(\<not> truthy x \<longrightarrow>
      set_selectedChainId v x m = (Returns (), log (SetSelectedChainId x) m) \<and>
      selectedChainId_f (snd (set_selectedChainId v x m)) = selectedChainId_f m) \<and>
   (0 < n \<and> n \<le> MAX_SAFE_INTEGER \<longrightarrow>
      numberToHex (Num n) = Inr (''0x'' @ toString16 (nat n)) \<and>
      fst (set_selectedChainId v (Num n) m) = Returns () \<and>
      selectedChainId_f (snd (set_selectedChainId v (Num n) m)) = Str (''0x'' @ toString16 (nat n)))"
  by (cases x; cases v) (simp_all add: set_selectedChainId_def)

theorem selectedChainId_setter_witness:
  "\<not> truthy Undefined \<and>
   selectedChainId_f (snd (set_selectedChainId InMemory Undefined
      ((new_manager None)\<lparr>selectedChainId_f := Str ''0x1''\<rparr>))) = Str ''0x1'' \<and>
   (0::int) < 137 \<and> 137 \<le> MAX_SAFE_INTEGER \<and>
   selectedChainId_f (snd (set_selectedChainId InMemory (Num 137)
      ((new_manager None)\<lparr>selectedChainId_f := Str ''0x1''\<rparr>))) = Str (''0x'' @ toString16 (nat 137))"
  using selectedChainId_setter [of Undefined InMemory "(new_manager None)\<lparr>selectedChainId_f := Str ''0x1''\<rparr>" 137]
  by (simp add: MAX_SAFE_INTEGER_def)

text \<open>
  C7 as it is stated fails for the numeric chain id \<open>0\<close>: its canonical hex form is \<open>0x0\<close>,
  but the setter's guard \<open>chainId && typeof chainId === 'number'\<close> takes \<open>0\<close> for a missing
  value, and a stored \<open>0x1\<close> stays.
\<close>

theorem selectedChainId_setter_zero_counterexample:
  "numberToHex (Num 0) = Inr ''0x0'' \<and>
   selectedChainId_f (snd (set_selectedChainId InMemory (Num 0)
      ((new_manager None)\<lparr>selectedChainId_f := Str ''0x1''\<rparr>))) = Str ''0x1'' \<and>
   selectedChainId_f (snd (set_selectedChainId StorageBacked (Num 0)
      ((new_manager None)\<lparr>selectedChainId_f := Str ''0x1''\<rparr>))) = Str ''0x1''"
  by (simp add: set_selectedChainId_def MAX_SAFE_INTEGER_def toString16_def to_radix.simps digit_char_def)

section \<open>disconnect\<close>

text \<open>When the core's \<open>disconnect\<close> resolves, \<open>disconnect\<close> returns with an empty account
  list, and with the selected chain it started with: \<open>#clearConnectionState\<close> assigns
  \<open>undefined\<close>, which the setter ignores. The callbacks given to the transport stay.\<close>

lemma disconnect_fields:
  "fst (disconnect v None m) = Returns ()"
  "selectedChainId_f (snd (disconnect v None m)) = selectedChainId_f m"
  "accounts_f (snd (disconnect v None m)) = []"
  "notification_callbacks (snd (disconnect v None m)) = notification_callbacks m"
  "window_listeners (snd (disconnect v None m)) = removeAll MetamaskProviderHandler (window_listeners m)"
  by (simp_all add: disconnect_def disconnect_resume_def disconnect_call_def
        clearConnectionState_def onDisconnect_def)

text \<open>
  C1 at a concrete input: a manager is constructed, \<open>connect({chainId: 1})\<close> succeeds, and
  \<open>disconnect()\<close> completes. Afterwards the account list is empty, but the selected chain
  is still \<open>0x1\<close>, not undefined. The window listener is removed; the callback that
  \<open>connect\<close> gave to \<open>transport.onNotification\<close> is not, and the core's \<open>off\<close> is given
  another function than the one its \<open>on\<close> was given.
\<close>

theorem disconnect_keeps_selectedChainId:
  "fst (disconnect InMemory None
          (snd (connect InMemory None \<lparr>chainId = 1, account = None\<rparr> (constructor None None))))
     = Returns () \<and>
   accounts_f (snd (disconnect InMemory None
          (snd (connect InMemory None \<lparr>chainId = 1, account = None\<rparr> (constructor None None)))))
     = [] \<and>
   selectedChainId_f (snd (disconnect InMemory None
          (snd (connect InMemory None \<lparr>chainId = 1, account = None\<rparr> (constructor None None)))))
     = Str ''0x1'' \<and>
   selectedChainId_f (snd (disconnect StorageBacked None
          (snd (metamaskProviderHandler StorageBacked (chainChanged_message ''0x1'')
                  (constructor None None)))))
     = Str ''0x1'' \<and>
   window_listeners (snd (disconnect InMemory None
          (snd (connect InMemory None \<lparr>chainId = 1, account = None\<rparr> (constructor None None)))))
     = [] \<and>
   notification_callbacks (snd (disconnect InMemory None
          (snd (connect InMemory None \<lparr>chainId = 1, account = None\<rparr> (constructor None None)))))
     = 1 \<and>
   CoreOn SessionChangedHandlerBound \<in> set (trace (snd (disconnect InMemory None
          (snd (connect InMemory None \<lparr>chainId = 1, account = None\<rparr> (constructor None None)))))) \<and>
   CoreOff SessionChangedHandler \<in> set (trace (snd (disconnect InMemory None
          (snd (connect InMemory None \<lparr>chainId = 1, account = None\<rparr> (constructor None None))))))"
  by code_simp

section \<open>switchChain and the pending chain configuration\<close>

text \<open>With the provider of \<open>src/unnamed/part_002\<close>, whose getter returns the stored string,
  a switch to the chain already selected returns at once: nothing is called, nothing changes.\<close>

lemma switchChain_selected_in_memory:
  "hexChainId_of c = Inr h \<Longrightarrow> selectedChainId_f m = Str h \<Longrightarrow>
   switchChain InMemory c cfg m = (Returns (), m)"
  by (simp add: switchChain_def get_selectedChainId_def)

text \<open>With the provider of \<open>provider.ts\<close> the getter returns a promise, which is never
  identical to a string: the early return is never taken.\<close>

lemma switchChain_storage_backed:
  "hexChainId_of c = Inr h \<Longrightarrow> h \<notin> set (getPermittedEthChainIds (sessionScopes m)) \<Longrightarrow>
   switchChain StorageBacked c cfg m =
     (Returns (),
      send_request ''wallet_switchEthereumChain'' (SwitchTo h)
        (m\<lparr>latestChainConfiguration := cfg\<rparr>))"
  by (simp add: switchChain_def get_selectedChainId_def)

text \<open>
  C4 at a concrete input, with the getter of \<open>provider.ts\<close> that the claim cites: the wallet
  announces chain \<open>0x1\<close>, which becomes the selected chain, and the dapp calls
  \<open>switchChain({chainId: '0x1', chainConfiguration})\<close>. The call is not a no-op: a
  \<open>wallet_switchEthereumChain\<close> request goes to the transport, and the pending chain
  configuration changes from none to the one supplied. The second conjunct is the same call
  with the getter of \<open>src/unnamed/part_002\<close>, where it changes nothing.
\<close>

theorem switchChain_selected_chain_not_noop:
  "selectedChainId_f (snd (metamaskProviderHandler StorageBacked (chainChanged_message ''0x1'')
                            (constructor None None))) = Str ''0x1'' \<and>
   switchChain StorageBacked (Str ''0x1'') (Some polygon)
     (snd (metamaskProviderHandler StorageBacked (chainChanged_message ''0x1'')
             (constructor None None))) =
   (Returns (),
    (snd (metamaskProviderHandler StorageBacked (chainChanged_message ''0x1'')
            (constructor None None)))
      \<lparr>latestChainConfiguration := Some polygon,
       trace := trace (snd (metamaskProviderHandler StorageBacked (chainChanged_message ''0x1'')
                              (constructor None None))) @
                [SendEip1193Message ''wallet_switchEthereumChain'' (SwitchTo ''0x1'')]\<rparr>) \<and>
   switchChain InMemory (Str ''0x1'') (Some polygon)
     (snd (metamaskProviderHandler InMemory (chainChanged_message ''0x1'')
             (constructor None None))) =
   (Returns (),
    snd (metamaskProviderHandler InMemory (chainChanged_message ''0x1'') (constructor None None)))"
  by code_simp

text \<open>
  C5, as the code has it. A switch attempt that reaches the wallet (the chain is neither the
  selected one nor a permitted one) overwrites the pending chain configuration with the one
  supplied, and sends the switch request and nothing else. The add-chain routine leaves the
  pending configuration as it is, also after it has used it. Neither of the two writes
  anything to the storage adapter.
\<close>

theorem pending_chain_configuration:
  "(hexChainId_of c = Inr h \<and> get_selectedChainId v m \<noteq> Str h \<and>
    h \<notin> set (getPermittedEthChainIds (sessionScopes m)) \<longrightarrow>
      fst (switchChain v c cfg m) = Returns () \<and>
      latestChainConfiguration (snd (switchChain v c cfg m)) = cfg \<and>
      trace (snd (switchChain v c cfg m)) =
        trace m @ [SendEip1193Message ''wallet_switchEthereumChain'' (SwitchTo h)]) \<and>
   latestChainConfiguration (snd (addEthereumChain x m)) = latestChainConfiguration m \<and>
   (latestChainConfiguration m = Some config \<longrightarrow>
      fst (addEthereumChain None m) = Returns () \<and>
      trace (snd (addEthereumChain None m)) =
        trace m @ [SendEip1193Message ''wallet_addEthereumChain'' (AddChain config)]) \<and>
   filter is_storage_write (trace (snd (addEthereumChain x m))) = filter is_storage_write (trace m)"
  by (auto simp: switchChain_def addEthereumChain_def split: option.splits)

theorem pending_chain_configuration_witness:
  "hexChainId_of (Num 137) = Inr ''0x89'' \<and>
   get_selectedChainId InMemory (constructor None None) \<noteq> Str ''0x89'' \<and>
   ''0x89'' \<notin> set (getPermittedEthChainIds (sessionScopes (constructor None None))) \<and>
   latestChainConfiguration
     (snd (switchChain InMemory (Num 137) (Some polygon) (constructor None None))) = Some polygon \<and>
   fst (addEthereumChain None
          (snd (switchChain InMemory (Num 137) (Some polygon) (constructor None None)))) = Returns () \<and>
   trace (snd (addEthereumChain None
            (snd (switchChain InMemory (Num 137) (Some polygon) (constructor None None))))) =
     trace (snd (switchChain InMemory (Num 137) (Some polygon) (constructor None None))) @
       [SendEip1193Message ''wallet_addEthereumChain'' (AddChain polygon)]"
proof -
  have a: "hexChainId_of (Num 137) = Inr ''0x89''"
    by code_simp
  have b: "get_selectedChainId InMemory (constructor None None) \<noteq> Str ''0x89''"
    by code_simp
  have c: "''0x89'' \<notin> set (getPermittedEthChainIds (sessionScopes (constructor None None)))"
    by code_simp
  have d: "latestChainConfiguration
     (snd (switchChain InMemory (Num 137) (Some polygon) (constructor None None))) = Some polygon"
    using pending_chain_configuration
      [where c = "Num 137" and h = "''0x89''" and v = InMemory and m = "constructor None None"
         and cfg = "Some polygon"]
      a b c
    by blast
  show ?thesis
    using pending_chain_configuration
      [where m = "snd (switchChain InMemory (Num 137) (Some polygon) (constructor None None))"
         and config = polygon and x = None]
      a b c d
    by blast
qed

text \<open>
  C5 as it is stated fails where it says that the pending configuration is cleared after the
  add-chain flow has used it: after a switch to Polygon that reached the wallet, the
  add-chain routine sends the stored configuration and returns, and the configuration is
  still stored.
\<close>

theorem pending_chain_configuration_counterexample:
  "fst (addEthereumChain None
          (snd (switchChain InMemory (Num 137) (Some polygon) (constructor None None))))
     = Returns () \<and>
   last (trace (snd (addEthereumChain None
          (snd (switchChain InMemory (Num 137) (Some polygon) (constructor None None))))))
     = SendEip1193Message ''wallet_addEthereumChain'' (AddChain polygon) \<and>
   latestChainConfiguration (snd (addEthereumChain None
          (snd (switchChain InMemory (Num 137) (Some polygon) (constructor None None)))))
     = Some polygon"
  by code_simp

section \<open>The change handlers\<close>

text \<open>
  C3, as the code has it. \<open>onAccountsChanged\<close> assigns the accounts, then emits
  \<open>accountsChanged\<close>, then calls the caller's handler. \<open>onChainChanged\<close>, for a chain id
  that has a hex form, assigns the selected chain first; the \<open>chainChanged\<close> event and the
  caller's handler come after the assignment. \<open>onConnect\<close> emits \<open>connect\<close>, then calls the
  caller's handler, and assigns the selected chain only after both, through
  \<open>onChainChanged\<close>. \<open>onDisconnect\<close> emits \<open>disconnect\<close>, then calls the caller's handler,
  and empties the accounts only after both, through \<open>onAccountsChanged\<close>.
\<close>

theorem change_handlers_order:
  "trace (onAccountsChanged v a m) =
     trace m @ SetAccounts a # storage_of_accounts v a @
       [Emit (AccountsChanged a)] @ callbacks_made m (AccountsChanged a) \<and>
   (hexChainId_of c = Inr h \<longrightarrow>
      (\<exists>rest. trace (snd (onChainChanged v c m)) = trace m @ SetSelectedChainId c # rest \<and>
         \<not> list_ex is_setter rest \<and> Emit (ChainChanged h) \<in> set rest \<and>
         set (callbacks_made m (ChainChanged h)) \<subseteq> set rest) \<and>
      (\<exists>rest. trace (snd (onConnect v c m)) =
         trace m @ Emit (Connect h) # callbacks_made m (Connect h) @ SetSelectedChainId c # rest)) \<and>
   trace (onDisconnect v m) =
     trace m @ Emit Disconnect # callbacks_made m Disconnect @
       SetAccounts [] # storage_of_accounts v [] @
       [Emit (AccountsChanged [])] @ callbacks_made m (AccountsChanged [])"
proof -
  have acc: "trace (onAccountsChanged v a m) =
     trace m @ SetAccounts a # storage_of_accounts v a @
       [Emit (AccountsChanged a)] @ callbacks_made m (AccountsChanged a)"
    by simp
  have dis: "trace (onDisconnect v m) =
     trace m @ Emit Disconnect # callbacks_made m Disconnect @
       SetAccounts [] # storage_of_accounts v [] @
       [Emit (AccountsChanged [])] @ callbacks_made m (AccountsChanged [])"
    by (simp add: onDisconnect_def)
  have chain: "\<exists>rest. trace (snd (onChainChanged v c m)) = trace m @ SetSelectedChainId c # rest \<and>
         \<not> list_ex is_setter rest \<and> Emit (ChainChanged h) \<in> set rest \<and>
         set (callbacks_made m (ChainChanged h)) \<subseteq> set rest"
    if h: "hexChainId_of c = Inr h"
  proof -
    define es where "es = storage_of_chain v c h"
    have es: "trace (snd (onChainChanged v c m)) =
                trace m @ SetSelectedChainId c # es @
                  callbacks_made m (ChainChanged h) @ [Emit (ChainChanged h)]"
      using onChainChanged_hex(3) [OF h, of v m] by (simp add: es_def)
    have "\<not> list_ex is_setter es"
      by (simp add: es_def storage_of_chain_def)
    moreover have "\<not> list_ex is_setter (callbacks_made m (ChainChanged h))"
      by (simp add: callbacks_made_def split: option.splits)
    ultimately have "\<not> list_ex is_setter
        (es @ callbacks_made m (ChainChanged h) @ [Emit (ChainChanged h)])"
      by (auto simp: list_ex_iff)
    then show ?thesis
      using es by (intro exI [of _ "es @ callbacks_made m (ChainChanged h) @ [Emit (ChainChanged h)]"]) auto
  qed
  have conn: "\<exists>rest. trace (snd (onConnect v c m)) =
         trace m @ Emit (Connect h) # callbacks_made m (Connect h) @ SetSelectedChainId c # rest"
    if h: "hexChainId_of c = Inr h"
  proof -
    have "onConnect v c m = onChainChanged v c (callback (Connect h) (emit (Connect h) m))"
      using h by (simp add: onConnect_def)
    then show ?thesis
      using onChainChanged_hex(3) [OF h, of v "callback (Connect h) (emit (Connect h) m)"]
      by auto
  qed
  show ?thesis
    using acc dis chain conn by blast
qed

theorem change_handlers_order_witness:
  "hexChainId_of (Num 137) = Inr ''0x89'' \<and>
   trace (onAccountsChanged InMemory [''0xabc''] (new_manager (Some all_handlers))) =
     [SetAccounts [''0xabc''], Emit (AccountsChanged [''0xabc'']), Callback (AccountsChanged [''0xabc''])] \<and>
   (\<exists>rest. trace (snd (onChainChanged InMemory (Num 137) (new_manager (Some all_handlers)))) =
       trace (new_manager (Some all_handlers)) @ SetSelectedChainId (Num 137) # rest \<and>
       \<not> list_ex is_setter rest \<and> Emit (ChainChanged ''0x89'') \<in> set rest) \<and>
   (\<exists>rest. trace (snd (onConnect InMemory (Num 137) (new_manager (Some all_handlers)))) =
       trace (new_manager (Some all_handlers)) @ Emit (Connect ''0x89'') #
         callbacks_made (new_manager (Some all_handlers)) (Connect ''0x89'') @
         SetSelectedChainId (Num 137) # rest)"
proof -
  have h: "hexChainId_of (Num 137) = Inr ''0x89''"
    by code_simp
  have t: "trace (new_manager (Some all_handlers)) = []"
    by (simp add: new_manager_def)
  have s: "storage_of_accounts InMemory [''0xabc''] = []"
    by (simp add: storage_of_accounts_def)
  have c: "callbacks_made (new_manager (Some all_handlers)) (AccountsChanged [''0xabc'']) =
             [Callback (AccountsChanged [''0xabc''])]"
    by (simp add: callbacks_made_def new_manager_def all_handlers_def)
  show ?thesis
    using change_handlers_order
      [of InMemory "[''0xabc'']" "new_manager (Some all_handlers)" "Num 137" "''0x89''"]
      h t s c
    by auto
qed

text \<open>
  C3 as it is stated fails. With all four handlers supplied, \<open>onChainChanged(137)\<close> calls
  the caller's handler before it emits the event; \<open>onConnect\<close> emits and calls the handler
  before any state is assigned; and so does \<open>onDisconnect\<close>.
\<close>

theorem change_handlers_order_counterexample:
  "trace (snd (onChainChanged InMemory (Num 137) (new_manager (Some all_handlers)))) =
     [SetSelectedChainId (Num 137), Callback (ChainChanged ''0x89''), Emit (ChainChanged ''0x89'')] \<and>
   trace (snd (onConnect InMemory (Str ''0x1'') (new_manager (Some all_handlers)))) =
     [Emit (Connect ''0x1''), Callback (Connect ''0x1''), SetSelectedChainId (Str ''0x1''),
      Callback (ChainChanged ''0x1''), Emit (ChainChanged ''0x1'')] \<and>
   trace (onDisconnect InMemory (new_manager (Some all_handlers))) =
     [Emit Disconnect, Callback Disconnect, SetAccounts [], Emit (AccountsChanged []),
      Callback (AccountsChanged [])]"
  by code_simp

section \<open>Messages from the wallet\<close>

lemma filter_is_emit_callbacks_made [simp]: "filter is_emit (callbacks_made m e) = []"
  by (simp add: callbacks_made_def split: option.splits)

lemma filter_is_emit_storage_of_chain [simp]: "filter is_emit (storage_of_chain v c h) = []"
  by (simp add: storage_of_chain_def)

lemma filter_is_emit_addEthereumChain [simp]:
  "filter is_emit (trace (snd (addEthereumChain x m))) = filter is_emit (trace m)"
  by (simp add: addEthereumChain_def split: option.splits)

text \<open>
  C8. A provider message of the page's own origin that carries
  \<open>metamask_chainChanged\<close> with \<open>{chainId: "0x89"}\<close> is read by \<open>Number\<close> as 137, which
  \<open>numberToHex\<close> writes as \<open>0x89\<close> again; after the handler the selected chain is
  \<open>0x89\<close>, and the one event the handler has emitted is \<open>chainChanged\<close> with \<open>0x89\<close>.
  This holds from every state, with either source of the provider, and whatever else the
  message carries.
\<close>

theorem chainChanged_0x89:
  assumes "isMetamaskProviderEvent ev"
    and "ev_data ev = Some d"
    and "d_notification d = MetamaskChainChanged (Some (Str ''0x89''))"
  shows "Number (Str ''0x89'') = Num 137 \<and> numberToHex (Num 137) = Inr ''0x89'' \<and>
         selectedChainId_f (snd (metamaskProviderHandler v ev m)) = Str ''0x89'' \<and>
         filter is_emit (trace (snd (metamaskProviderHandler v ev m))) =
           filter is_emit (trace m) @ [Emit (ChainChanged ''0x89'')]"
proof -
  have n: "Number (Str ''0x89'') = Num 137"
    by code_simp
  have x: "numberToHex (Num 137) = Inr ''0x89''"
    by code_simp
  have h: "hexChainId_of (Num 137) = Inr ''0x89''"
    using x by simp
  obtain r m1 where r: "onChainChanged v (Num 137) m = (r, m1)"
    by (cases "onChainChanged v (Num 137) m")
  have r1: "r = Returns ()"
    using onChainChanged_hex(1) [OF h, of v m] r by simp
  have s: "selectedChainId_f m1 = Str ''0x89''"
    using onChainChanged_hex(2) [OF h, of v m] r by simp
  have t: "filter is_emit (trace m1) = filter is_emit (trace m) @ [Emit (ChainChanged ''0x89'')]"
    using onChainChanged_hex(3) [OF h, of v m] r by simp
  have "metamaskProviderHandler v ev m =
          (if d_error_code d = Some 4902 then addEthereumChain None m1 else (Returns (), m1))"
    using assms n r r1 by (simp add: metamaskProviderHandler_def)
  then show ?thesis
    using n x s t by simp
qed

theorem chainChanged_0x89_witness:
  "isMetamaskProviderEvent (chainChanged_message ''0x89'') \<and>
   selectedChainId_f
     (snd (metamaskProviderHandler InMemory (chainChanged_message ''0x89'') (constructor None None)))
     = Str ''0x89'' \<and>
   filter is_emit
     (trace (snd (metamaskProviderHandler InMemory (chainChanged_message ''0x89'')
                    (constructor None None))))
     = filter is_emit (trace (constructor None None)) @ [Emit (ChainChanged ''0x89'')]"
proof -
  have a: "isMetamaskProviderEvent (chainChanged_message ''0x89'')"
    by (simp add: isMetamaskProviderEvent_def chainChanged_message_def)
  have b: "ev_data (chainChanged_message ''0x89'') =
             Some \<lparr>d_notification = MetamaskChainChanged (Some (Str ''0x89'')), d_result = NoResult,
                   d_error_code = None\<rparr>"
    by (simp add: chainChanged_message_def)
  show ?thesis
    using chainChanged_0x89 [OF a b, of InMemory "constructor None None"] a by simp
qed

text \<open>The first two steps of the window's handler, for a record whose chain notification is
  well formed: they return, keep the pending configuration and send nothing.\<close>

lemma metamaskProviderHandler_relay:
  assumes "isMetamaskProviderEvent ev"
    and "ev_data ev = Some d"
    and "chain_notification_ok (d_notification d)"
  shows "\<exists>m2 pre.
           metamaskProviderHandler v ev m =
             (if d_error_code d = Some 4902 then addEthereumChain None m2 else (Returns (), m2)) \<and>
           latestChainConfiguration m2 = latestChainConfiguration m \<and>
           trace m2 = trace m @ pre \<and> \<not> list_ex is_send pre"
proof (cases "d_notification d")
  case NoMethod
  then have "metamaskProviderHandler v ev m =
      (if d_error_code d = Some 4902 then addEthereumChain None m else (Returns (), m))"
    using assms by (simp add: metamaskProviderHandler_def)
  then show ?thesis
    by (intro exI [of _ m] exI [of _ "[]"]) simp
next
  case OtherMethod
  then have "metamaskProviderHandler v ev m =
      (if d_error_code d = Some 4902 then addEthereumChain None m else (Returns (), m))"
    using assms by (simp add: metamaskProviderHandler_def)
  then show ?thesis
    by (intro exI [of _ m] exI [of _ "[]"]) simp
next
  case (MetamaskAccountsChanged a)
  then have "metamaskProviderHandler v ev m =
      (if d_error_code d = Some 4902 then addEthereumChain None (onAccountsChanged v a m)
       else (Returns (), onAccountsChanged v a m))"
    using assms by (simp add: metamaskProviderHandler_def)
  moreover have "\<not> list_ex is_send
      (SetAccounts a # storage_of_accounts v a @
       [Emit (AccountsChanged a)] @ callbacks_made m (AccountsChanged a))"
    by (simp add: storage_of_accounts_def callbacks_made_def split: option.splits)
  ultimately show ?thesis
    by (intro exI [of _ "onAccountsChanged v a m"]
          exI [of _ "SetAccounts a # storage_of_accounts v a @
                      [Emit (AccountsChanged a)] @ callbacks_made m (AccountsChanged a)"])
       simp
next
  case (MetamaskChainChanged p)
  then obtain c h where p: "p = Some c" and h: "hexChainId_of (Number c) = Inr h"
    using assms(3) by (cases p) (auto split: sum.splits)
  obtain r m1 where r: "onChainChanged v (Number c) m = (r, m1)"
    by (cases "onChainChanged v (Number c) m")
  have r1: "r = Returns ()"
    using onChainChanged_hex(1) [OF h, of v m] r by simp
  have l: "latestChainConfiguration m1 = latestChainConfiguration m"
    using fields_onChainChanged(4) [of v "Number c" m] r by simp
  have t: "trace m1 = trace m @ SetSelectedChainId (Number c) # storage_of_chain v (Number c) h @
             callbacks_made m (ChainChanged h) @ [Emit (ChainChanged h)]"
    using onChainChanged_hex(3) [OF h, of v m] r by simp
  have ns: "\<not> list_ex is_send (SetSelectedChainId (Number c) # storage_of_chain v (Number c) h @
             callbacks_made m (ChainChanged h) @ [Emit (ChainChanged h)])"
    by (simp add: storage_of_chain_def callbacks_made_def split: option.splits)
  have "metamaskProviderHandler v ev m =
      (if d_error_code d = Some 4902 then addEthereumChain None m1 else (Returns (), m1))"
    using assms MetamaskChainChanged p r r1 by (simp add: metamaskProviderHandler_def)
  then show ?thesis
    using l t ns by blast
qed

text \<open>
  C6. A provider message of the page's own origin carries an error with code 4902; if the
  message is also a \<open>metamask_chainChanged\<close> notification, its chain id is well formed.
  When a chain configuration is pending, the handler returns, and the last call it has made
  is the one \<open>wallet_addEthereumChain\<close> request it has sent, with that configuration. When
  none is pending, the add-chain routine throws the missing-configuration error, and nothing
  has been sent.
\<close>

theorem error_4902_adds_chain:
  assumes "isMetamaskProviderEvent ev"
    and "ev_data ev = Some d"
    and "d_error_code d = Some 4902"
    and "chain_notification_ok (d_notification d)"
  shows "(latestChainConfiguration m = Some config \<longrightarrow>
            fst (metamaskProviderHandler v ev m) = Returns () \<and>
            (\<exists>pre. trace (snd (metamaskProviderHandler v ev m)) =
                     trace m @ pre @ [SendEip1193Message ''wallet_addEthereumChain'' (AddChain config)] \<and>
                   \<not> list_ex is_send pre)) \<and>
         (latestChainConfiguration m = None \<longrightarrow>
            fst (metamaskProviderHandler v ev m) = Throws NoChainConfiguration \<and>
            filter is_send (trace (snd (metamaskProviderHandler v ev m))) = filter is_send (trace m) \<and>
            addEthereumChain None m = (Throws NoChainConfiguration, m))"
proof -
  obtain m2 pre where eq: "metamaskProviderHandler v ev m = addEthereumChain None m2"
    and l: "latestChainConfiguration m2 = latestChainConfiguration m"
    and t: "trace m2 = trace m @ pre" and ns: "\<not> list_ex is_send pre"
    using metamaskProviderHandler_relay [OF assms(1,2,4), of v m] assms(3) by auto
  have f: "filter is_send pre = []"
    using ns by (simp add: list_ex_iff filter_empty_conv)
  show ?thesis
  proof (intro conjI impI)
    assume c: "latestChainConfiguration m = Some config"
    then have a: "addEthereumChain None m2 =
        (Returns (), send_request ''wallet_addEthereumChain'' (AddChain config) m2)"
      using l by (simp add: addEthereumChain_pending)
    show "fst (metamaskProviderHandler v ev m) = Returns ()"
      using eq a by simp
    show "\<exists>pre. trace (snd (metamaskProviderHandler v ev m)) =
                     trace m @ pre @ [SendEip1193Message ''wallet_addEthereumChain'' (AddChain config)] \<and>
                   \<not> list_ex is_send pre"
      using eq a t ns by (intro exI [of _ pre]) simp
  next
    assume c: "latestChainConfiguration m = None"
    then have a: "addEthereumChain None m2 = (Throws NoChainConfiguration, m2)"
      using l by (simp add: addEthereumChain_pending)
    show "fst (metamaskProviderHandler v ev m) = Throws NoChainConfiguration"
      using eq a by simp
    show "filter is_send (trace (snd (metamaskProviderHandler v ev m))) = filter is_send (trace m)"
      using eq a t f by simp
    show "addEthereumChain None m = (Throws NoChainConfiguration, m)"
      using c by (simp add: addEthereumChain_pending)
  qed
qed

theorem error_4902_adds_chain_witness:
  "isMetamaskProviderEvent (error_message 4902) \<and>
   latestChainConfiguration
     (snd (switchChain InMemory (Num 137) (Some polygon) (constructor None None))) = Some polygon \<and>
   fst (metamaskProviderHandler InMemory (error_message 4902)
          (snd (switchChain InMemory (Num 137) (Some polygon) (constructor None None)))) = Returns () \<and>
   (\<exists>pre. trace (snd (metamaskProviderHandler InMemory (error_message 4902)
                  (snd (switchChain InMemory (Num 137) (Some polygon) (constructor None None))))) =
            trace (snd (switchChain InMemory (Num 137) (Some polygon) (constructor None None))) @
              pre @ [SendEip1193Message ''wallet_addEthereumChain'' (AddChain polygon)] \<and>
          \<not> list_ex is_send pre) \<and>
   latestChainConfiguration (constructor None None) = None \<and>
   fst (metamaskProviderHandler InMemory (error_message 4902) (constructor None None)) =
     Throws NoChainConfiguration"
proof -
  have a: "isMetamaskProviderEvent (error_message 4902)"
    by (simp add: isMetamaskProviderEvent_def error_message_def)
  have b: "ev_data (error_message 4902) =
             Some \<lparr>d_notification = NoMethod, d_result = NoResult, d_error_code = Some 4902\<rparr>"
    by (simp add: error_message_def)
  have c: "d_error_code \<lparr>d_notification = NoMethod, d_result = NoResult, d_error_code = Some 4902\<rparr>
             = Some 4902"
    by simp
  have d: "chain_notification_ok
             (d_notification \<lparr>d_notification = NoMethod, d_result = NoResult, d_error_code = Some 4902\<rparr>)"
    by simp
  have e: "latestChainConfiguration
     (snd (switchChain InMemory (Num 137) (Some polygon) (constructor None None))) = Some polygon"
    by code_simp
  have f: "latestChainConfiguration (constructor None None) = None"
    by code_simp
  show ?thesis
    using error_4902_adds_chain [OF a b c d, of
        "snd (switchChain InMemory (Num 137) (Some polygon) (constructor None None))" polygon InMemory]
      error_4902_adds_chain [OF a b c d, of "constructor None None" polygon InMemory]
      a e f
    by blast
qed

section \<open>connect\<close>

text \<open>
  C10, with the provider of \<open>src/unnamed/part_002\<close> that the claim cites. When the core's
  \<open>connect\<close> has resolved and the chain id is a non-negative safe integer, \<open>connect\<close>
  returns; its \<open>accounts\<close> are the provider's account list as it is when \<open>connect\<close>
  resumes, which \<open>connect\<close> itself never assigns, and the core's answer is not part of the
  result. On a manager that has applied no account change since its construction, the
  accounts returned are the empty list.
\<close>

theorem connect_returns_cached_accounts:
  assumes "0 \<le> chainId a"
    and "chainId a \<le> MAX_SAFE_INTEGER"
  shows "(\<exists>m'. connect_resume InMemory None a m =
                 (Returns \<lparr>accounts = AccountList (accounts_f m), resultChainId = chainId a\<rparr>, m') \<and>
               accounts_f m' = accounts_f m) \<and>
         (\<exists>m'. connect InMemory None a (constructor hs queue) =
                 (Returns \<lparr>accounts = AccountList [], resultChainId = chainId a\<rparr>, m'))"
proof -
  define h where "h = ''0x'' @ toString16 (nat (chainId a))"
  have nh: "numberToHex (Num (chainId a)) = Inr h"
    using assms by (simp add: h_def)
  have hx: "hexChainId_of (Str h) = Inr h"
    using isHex_numberToHex [OF nh] by (simp del: isHex.simps)
  have rt: "hexToNumber (Str h) = Inr (chainId a)"
    using hexToNumber_numberToHex [OF nh] .
  have resume: "\<exists>m'. connect_resume InMemory None a m0 =
                 (Returns \<lparr>accounts = AccountList (accounts_f m0), resultChainId = chainId a\<rparr>, m') \<and>
               accounts_f m' = accounts_f m0" for m0
  proof -
    obtain r1 m1 where s: "set_selectedChainId InMemory (Str h) m0 = (r1, m1)"
      by (cases "set_selectedChainId InMemory (Str h) m0")
    have r1: "r1 = Returns ()"
      using set_selectedChainId_hex(1) [OF hx, of InMemory m0] s by simp
    have c1: "selectedChainId_f m1 = Str h"
      using set_selectedChainId_hex(2) [OF hx, of InMemory m0] s by simp
    have a1: "accounts_f m1 = accounts_f m0"
      using fields_set_selectedChainId(1) [of InMemory "Str h" m0] s by simp
    define m2 where
      "m2 = log OnNotification (m1\<lparr>notification_callbacks := Suc (notification_callbacks m1)\<rparr>)"
    have c2: "selectedChainId_f m2 = Str h" and a2: "accounts_f m2 = accounts_f m0"
      using c1 a1 by (simp_all add: m2_def)
    define m2' where "m2' = callback (Connect h) (emit (Connect h) m2)"
    have c2': "selectedChainId_f m2' = Str h" and a2': "accounts_f m2' = accounts_f m0"
      using c2 a2 by (simp_all add: m2'_def)
    obtain r3 m3 where o: "onChainChanged InMemory (Str h) m2' = (r3, m3)"
      by (cases "onChainChanged InMemory (Str h) m2'")
    have r3: "r3 = Returns ()"
      using onChainChanged_hex(1) [OF hx, of InMemory m2'] o by simp
    have c3: "selectedChainId_f m3 = Str h"
      using onChainChanged_hex(2) [OF hx, of InMemory m2'] o by simp
    have a3: "accounts_f m3 = accounts_f m0"
      using fields_onChainChanged(1) [of InMemory "Str h" m2'] o a2' by simp
    have oc: "onConnect InMemory (Str h) m2 = (Returns (), m3)"
      using hx o r3 by (simp add: onConnect_def m2'_def del: hexChainId_of.simps)
    have "connect_resume InMemory None a m0 =
            (Returns \<lparr>accounts = AccountList (accounts_f m0), resultChainId = chainId a\<rparr>, m3)"
      using nh s r1 c1 c2 oc c3 a3 rt
      by (simp add: connect_resume_def get_selectedChainId_def get_accounts_def m2_def [symmetric]
            del: numberToHex.simps hexToNumber.simps)
    then show ?thesis
      using a3 by blast
  qed
  have fresh: "accounts_f (connect_call a (constructor hs queue)) = []"
    by (simp add: connect_call_def constructor_def attemptSessionRecovery_def addEventListener_def
          new_manager_def split: option.splits)
  show ?thesis
    using resume [of m] resume [of "connect_call a (constructor hs queue)"] fresh
    by (auto simp: connect_def)
qed

theorem connect_returns_cached_accounts_witness:
  "(0::int) \<le> chainId \<lparr>chainId = 1, account = None\<rparr> \<and>
   chainId \<lparr>chainId = 1, account = None\<rparr> \<le> MAX_SAFE_INTEGER \<and>
   (\<exists>m'. connect InMemory None \<lparr>chainId = 1, account = None\<rparr> (constructor None None) =
           (Returns \<lparr>accounts = AccountList [], resultChainId = 1\<rparr>, m'))"
proof -
  have a: "(0::int) \<le> chainId \<lparr>chainId = 1, account = None\<rparr>"
    by simp
  have b: "chainId \<lparr>chainId = 1, account = None\<rparr> \<le> MAX_SAFE_INTEGER"
    by (simp add: MAX_SAFE_INTEGER_def)
  show ?thesis
    using connect_returns_cached_accounts [OF a b, of "constructor None None" None None] a b
    by simp
qed

text \<open>With the provider of \<open>provider.ts\<close>, whose getters return promises, the same call
  does not return: \<open>#onConnect\<close> is handed a promise for a chain id, and \<open>numberToHex\<close>
  rejects it. The selected chain has been stored by then.\<close>

lemma connect_storage_backed_throws:
  "fst (connect StorageBacked None \<lparr>chainId = 1, account = None\<rparr> (constructor None None)) =
     Throws AssertionError \<and>
   selectedChainId_f
     (snd (connect StorageBacked None \<lparr>chainId = 1, account = None\<rparr> (constructor None None))) =
     Str ''0x1''"
  by code_simp

section \<open>The provider's request\<close>

text \<open>No step of the manager reaches the core's \<open>invokeMethod\<close>.\<close>

lemma no_invoke_lists [simp]:
  "filter is_invoke (callbacks_made m e) = []"
  "filter is_invoke (storage_of_accounts v a) = []"
  by (simp_all add: callbacks_made_def storage_of_accounts_def split: option.splits)

lemma no_invoke_basic [simp]:
  "filter is_invoke (trace (emit e m)) = filter is_invoke (trace m)"
  "filter is_invoke (trace (callback e m)) = filter is_invoke (trace m)"
  "filter is_invoke (trace (send_request mt ps m)) = filter is_invoke (trace m)"
  "filter is_invoke (trace (set_accounts v a m)) = filter is_invoke (trace m)"
  "filter is_invoke (trace (onAccountsChanged v a m)) = filter is_invoke (trace m)"
  "filter is_invoke (trace (removeEventListener l m)) = filter is_invoke (trace m)"
  "filter is_invoke (trace (snd (addEthereumChain x m))) = filter is_invoke (trace m)"
  by (simp_all add: callbacks_made_def storage_of_accounts_def addEthereumChain_def
        split: option.splits)

lemma no_invoke_set_selectedChainId [simp]:
  "filter is_invoke (trace (snd (set_selectedChainId v c m))) = filter is_invoke (trace m)"
  by (simp add: set_selectedChainId_def Let_def split: sum.splits)

lemma no_invoke_about_chain: "list_all about_chain es \<Longrightarrow> filter is_invoke es = []"
  by (induction es) (auto elim: about_chain.elims)

lemma no_invoke_onChainChanged [simp]:
  "filter is_invoke (trace (snd (onChainChanged v c m))) = filter is_invoke (trace m)"
  using onChainChanged_about_chain [of v c m] by (auto simp: no_invoke_about_chain)

lemma no_invoke_and_then:
  assumes "filter is_invoke (trace (snd r)) = t"
    and "\<And>x m'. filter is_invoke (trace (snd (f x m'))) = filter is_invoke (trace m')"
  shows "filter is_invoke (trace (snd (and_then r f))) = t"
proof (cases r)
  case (Pair o' m')
  then show ?thesis
    using assms by (cases o') simp_all
qed

lemma no_invoke_onConnect [simp]:
  "filter is_invoke (trace (snd (onConnect v c m))) = filter is_invoke (trace m)"
  by (simp add: onConnect_def split: sum.splits)

lemma no_invoke_switchChain [simp]:
  "filter is_invoke (trace (snd (switchChain v c cfg m))) = filter is_invoke (trace m)"
  by (simp add: switchChain_def split: sum.splits)

lemma no_invoke_disconnect [simp]:
  "filter is_invoke (trace (snd (disconnect v sdk m))) = filter is_invoke (trace m)"
proof (cases sdk)
  case None
  have "filter is_invoke (trace (snd (clearConnectionState v (onDisconnect v (disconnect_call m)))))
          = filter is_invoke (trace m)"
    by (simp add: clearConnectionState_def onDisconnect_def disconnect_call_def)
  then show ?thesis
    using None
    by (simp add: disconnect_def disconnect_resume_def no_invoke_and_then)
next
  case (Some e)
  then show ?thesis
    by (simp add: disconnect_def disconnect_resume_def disconnect_call_def)
qed

lemma no_invoke_connect [simp]:
  "filter is_invoke (trace (snd (connect v sdk a m))) = filter is_invoke (trace m)"
proof (cases sdk)
  case (Some e)
  then show ?thesis
    by (simp add: connect_def connect_resume_def connect_call_def)
next
  case None
  show ?thesis
  proof (cases "numberToHex (Num (chainId a))")
    case (Inl e)
    then show ?thesis
      using None by (simp add: connect_def connect_resume_def connect_call_def del: numberToHex.simps)
  next
    case (Inr h)
    have last_step: "filter is_invoke (trace (snd
        (case hexToNumber (get_selectedChainId v m3) of
           Inl e \<Rightarrow> (Throws e, m3)
         | Inr n \<Rightarrow> (Returns \<lparr>accounts = get_accounts v m3, resultChainId = n\<rparr>, m3))))
        = filter is_invoke (trace m3)" for m3
      by (simp split: sum.splits)
    have rest: "filter is_invoke (trace (snd
        (let m2 = log OnNotification (m1\<lparr>notification_callbacks := Suc (notification_callbacks m1)\<rparr>)
         in and_then (onConnect v (get_selectedChainId v m2) m2)
              (\<lambda>_ m3. case hexToNumber (get_selectedChainId v m3) of
                         Inl e \<Rightarrow> (Throws e, m3)
                       | Inr n \<Rightarrow> (Returns \<lparr>accounts = get_accounts v m3, resultChainId = n\<rparr>, m3)))))
        = filter is_invoke (trace m1)" for m1
      unfolding Let_def
      by (rule no_invoke_and_then) (simp, rule last_step)
    have "filter is_invoke (trace (snd (connect_resume v None a (connect_call a m))))
            = filter is_invoke (trace m)"
      using Inr
      by (simp add: connect_resume_def del: numberToHex.simps)
         (rule no_invoke_and_then, simp add: connect_call_def, rule rest)
    then show ?thesis
      using None by (simp add: connect_def)
  qed
qed

lemma no_invoke_returning:
  "filter is_invoke (trace (snd r)) = t \<Longrightarrow> filter is_invoke (trace (snd (returning y r))) = t"
  unfolding returning_def by (rule no_invoke_and_then) simp_all

lemma no_invoke_requestInterceptor:
  "filter is_invoke (trace (snd (requestInterceptor v E sdk rq m))) = filter is_invoke (trace m)"
proof -
  have c: "filter is_invoke (trace (snd
      (case rq_params rq of
         ConnectParams c a \<Rightarrow>
           and_then
             (connect v sdk \<lparr>chainId = (case c of Some n \<Rightarrow> n | None \<Rightarrow> 1), account = a\<rparr> m)
             (\<lambda>r m1. (Returns (RConnected r), m1))
       | _ \<Rightarrow> (Throws TypeError, m)))) = filter is_invoke (trace m)"
    by (cases "rq_params rq") (simp_all add: no_invoke_and_then)
  have s: "filter is_invoke (trace (snd
      (case rq_params rq of
         SwitchChainParams c \<Rightarrow> returning RUndefined (switchChain v (parseInt16 c) None m)
       | _ \<Rightarrow> (Throws TypeError, m)))) = filter is_invoke (trace m)"
    by (cases "rq_params rq") (simp_all add: no_invoke_returning)
  have a: "filter is_invoke (trace (snd
      (case rq_params rq of
         AddChainParams config \<Rightarrow> returning RUndefined (addEthereumChain (Some config) m)
       | _ \<Rightarrow> (Throws TypeError, m)))) = filter is_invoke (trace m)"
    by (cases "rq_params rq") (simp_all add: no_invoke_returning)
  show ?thesis
    unfolding requestInterceptor_def
    using c s a by (simp add: no_invoke_returning)
qed

text \<open>
  C2. For a method of the interceptable list, \<open>request\<close> is the interceptor's answer, and
  the manager's interceptor adds no \<open>invokeMethod\<close> to the calls made. For any other
  method, with any interceptor: when no chain is selected, \<open>request\<close> throws the
  unselected-chain error and does nothing else; when the selected chain is a hex string
  that reads as the safe integer \<open>n\<close>, \<open>request\<close> calls the core's \<open>invokeMethod\<close> once,
  with the scope \<open>eip155:\<close> followed by the decimal digits of \<open>n\<close>, and with the request's
  own method and params.
\<close>

theorem request_dispatch:
  "(rq_method rq \<in> set (INTERCEPTABLE_METHODS E) \<longrightarrow>
      request E I rq m = I rq m \<and>
      filter is_invoke (trace (snd (request E (requestInterceptor v E sdk) rq m))) =
        filter is_invoke (trace m)) \<and>
   (rq_method rq \<notin> set (INTERCEPTABLE_METHODS E) \<and> \<not> truthy (selectedChainId_f m) \<longrightarrow>
      request E I rq m = (Throws NoChainSelected, m)) \<and>
   (rq_method rq \<notin> set (INTERCEPTABLE_METHODS E) \<and> hexToNumber (selectedChainId_f m) = Inr n \<longrightarrow>
      request E I rq m =
        (Returns RInvokeMethod,
         log (InvokeMethod (''eip155:'' @ toString10 n) (rq_method rq) (rq_params rq)) m))"
proof -
  have t: "truthy (selectedChainId_f m)" if "hexToNumber (selectedChainId_f m) = Inr n"
  proof (cases "selectedChainId_f m")
    case (Str s)
    then have "isHex (Str s)"
      using that by (simp del: isHex.simps split: if_splits)
    then show ?thesis
      using Str isHex_nonempty by simp
  qed (use that in simp_all)
  show ?thesis
    using t by (auto simp: request_def no_invoke_requestInterceptor simp del: hexToNumber.simps)
qed

theorem request_dispatch_witness:
  "rq_method \<lparr>rq_method = ''eth_accounts'', rq_params = GenericParams (JArr [])\<rparr>
     \<in> set (INTERCEPTABLE_METHODS sample_env) \<and>
   request sample_env (requestInterceptor InMemory sample_env None)
     \<lparr>rq_method = ''eth_accounts'', rq_params = GenericParams (JArr [])\<rparr> (constructor None None)
   = requestInterceptor InMemory sample_env None
       \<lparr>rq_method = ''eth_accounts'', rq_params = GenericParams (JArr [])\<rparr> (constructor None None) \<and>
   rq_method \<lparr>rq_method = ''eth_blockNumber'', rq_params = GenericParams (JArr [])\<rparr>
     \<notin> set (INTERCEPTABLE_METHODS sample_env) \<and>
   \<not> truthy (selectedChainId_f (constructor None None)) \<and>
   request sample_env (requestInterceptor InMemory sample_env None)
     \<lparr>rq_method = ''eth_blockNumber'', rq_params = GenericParams (JArr [])\<rparr> (constructor None None)
   = (Throws NoChainSelected, constructor None None) \<and>
   hexToNumber (selectedChainId_f
      (snd (metamaskProviderHandler InMemory (chainChanged_message ''0x89'') (constructor None None))))
   = Inr 137 \<and>
   request sample_env (requestInterceptor InMemory sample_env None)
     \<lparr>rq_method = ''eth_blockNumber'', rq_params = GenericParams (JArr [])\<rparr>
     (snd (metamaskProviderHandler InMemory (chainChanged_message ''0x89'') (constructor None None)))
   = (Returns RInvokeMethod,
      log (InvokeMethod (''eip155:'' @ toString10 137) ''eth_blockNumber'' (GenericParams (JArr [])))
        (snd (metamaskProviderHandler InMemory (chainChanged_message ''0x89'')
                (constructor None None))))"
proof -
  have a: "rq_method \<lparr>rq_method = ''eth_accounts'', rq_params = GenericParams (JArr [])\<rparr>
     \<in> set (INTERCEPTABLE_METHODS sample_env)"
    by (simp add: sample_env_def)
  have b: "rq_method \<lparr>rq_method = ''eth_blockNumber'', rq_params = GenericParams (JArr [])\<rparr>
     \<notin> set (INTERCEPTABLE_METHODS sample_env)"
    by (simp add: sample_env_def)
  have c: "\<not> truthy (selectedChainId_f (constructor None None))"
    by code_simp
  have d: "hexToNumber (selectedChainId_f
      (snd (metamaskProviderHandler InMemory (chainChanged_message ''0x89'') (constructor None None))))
   = Inr 137"
    by code_simp
  show ?thesis
    using
      request_dispatch [where rq = "\<lparr>rq_method = ''eth_accounts'', rq_params = GenericParams (JArr [])\<rparr>"
        and E = sample_env and I = "requestInterceptor InMemory sample_env None"
        and m = "constructor None None"]
      request_dispatch [where rq = "\<lparr>rq_method = ''eth_blockNumber'', rq_params = GenericParams (JArr [])\<rparr>"
        and E = sample_env and I = "requestInterceptor InMemory sample_env None"
        and m = "constructor None None"]
      request_dispatch [where rq = "\<lparr>rq_method = ''eth_blockNumber'', rq_params = GenericParams (JArr [])\<rparr>"
        and E = sample_env and I = "requestInterceptor InMemory sample_env None"
        and m = "snd (metamaskProviderHandler InMemory (chainChanged_message ''0x89'')
                        (constructor None None))"
        and n = 137]
      a b c d
    by simp
qed

section \<open>Session recovery\<close>

lemma accountsChanged_events_append [simp]:
  "accountsChanged_events (xs @ ys) = accountsChanged_events xs @ accountsChanged_events ys"
  by (induction xs rule: accountsChanged_events.induct) simp_all


lemma accountsChanged_events_lists [simp]:
  "accountsChanged_events (callbacks_made m e) = []"
  "accountsChanged_events (storage_of_accounts v a) = []"
  by (simp_all add: callbacks_made_def storage_of_accounts_def split: option.splits)


lemma accountsChanged_events_addEthereumChain [simp]:
  "accountsChanged_events (trace (snd (addEthereumChain x m))) = accountsChanged_events (trace m)"
  by (simp add: addEthereumChain_def split: option.splits)








lemma dispatch_all_Cons [simp]:
  "dispatch_all v (ev # evs) m = dispatch_all v evs (dispatch_message v ev m)"
  by (simp add: dispatch_all_def)

lemma dispatch_all_Nil [simp]: "dispatch_all v [] m = m"
  by (simp add: dispatch_all_def)








text \<open>Why the messages of C9 are no \<open>metamask_accountsChanged\<close> notifications: such a
  notification is relayed by the other listener, as a further \<open>accountsChanged\<close> event.\<close>

lemma session_recovery_and_notification:
  "accountsChanged_events
     (trace (dispatch_all InMemory
               [result_message [address_a], accountsChanged_message [address_b]]
               (constructor None (Some [Some ''wallet_sessionChanged''])))) =
     [[address_a], [address_b]]"
  by code_simp


end
